theory Spec2Isabelle
  imports Complex_Main
begin

section \<open>The rotating lidar sensor of UrdfSim (UnrealLidarSensor.cpp)\<close>

text \<open>
  A shallow embedding of \<^verbatim>\<open>UnrealLidarSensor\<close>: its constructor, \<^verbatim>\<open>createLasers\<close>,
  \<^verbatim>\<open>getPointCloud\<close> and \<^verbatim>\<open>shootLaser\<close>.

  Numbers. A \<^verbatim>\<open>float\<close> or \<^verbatim>\<open>double\<close> value is the real number it stands for. Where a
  count or a table entry depends on what rounding does (\<^verbatim>\<open>createLasers\<close>, and the point
  budget of lines 83 to 92), every operation is rounded to its format: binary32 for
  \<^verbatim>\<open>float\<close>, binary64 for \<^verbatim>\<open>double\<close>, to nearest, ties to even. The angles and vectors of a
  ray go through the engine's functions, which are parameters, and the arithmetic around
  them is exact. What the formats add to the reals (infinities and NaN after a division
  by \<^verbatim>\<open>0.0f\<close>) and what C++ leaves undefined (converting a value outside the range of
  \<^verbatim>\<open>uint32\<close>, reading a variable that was never assigned, indexing a vector out of
  range) is an explicit error result. Unsigned integers are naturals; the only
  conversion into them is checked for range.

  Collaborators. The engine (rotators, the raycast, the game thread test) and the math
  helpers of AirLib are not part of the sensor; the sensor's functions take them as a
  record of functions, so that the general statements hold for any engine.
\<close>

subsection \<open>Data\<close>

text \<open>\<^verbatim>\<open>msr::airlib::Vector3r\<close> (x, y, z) and Unreal's \<^verbatim>\<open>FVector\<close> (X, Y, Z).\<close>

datatype Vector3r = Vector3r (vx: real) (vy: real) (vz: real)

datatype FVector = FVector (fX: real) (fY: real) (fZ: real)

text \<open>\<^verbatim>\<open>Quaternionr\<close> is built from (w, x, y, z), \<^verbatim>\<open>FQuat\<close> from (X, Y, Z, W),
  \<^verbatim>\<open>FRotator\<close> from (Pitch, Yaw, Roll).\<close>

datatype Quaternionr = Quaternionr (qw: real) (qx: real) (qy: real) (qz: real)

datatype FQuat = FQuat real real real real

datatype FRotator = FRotator real real real

record Pose =
  position :: Vector3r
  orientation :: Quaternionr

text \<open>Modelled from the spec: \<^verbatim>\<open>LidarSimpleParams\<close> is declared in an AirLib header that is
  not among the sources. The fields are the ones the sensor reads; the spec lists them
  as the lidar configuration (channel count \<open>\<ge> 0\<close>, field-of-view bounds in degrees,
  rotation frequency, point rate, range, and the two flags).\<close>

record LidarSimpleParams =
  number_of_channels :: nat
  lidar_range :: real
  points_per_second :: real
  horizontal_rotation_frequency :: real
  vertical_FOV_upper :: real
  vertical_FOV_lower :: real
  ignore_pawn_collision :: bool
  draw_debug_points :: bool

text \<open>An actor is referred to by an identifier. \<^verbatim>\<open>dynamic_cast<AUrdfLink*>\<close> succeeds on
  a link, which knows its owning actor.\<close>

datatype AActor = PlainActor nat | AUrdfLink nat nat

text \<open>The optional reference-frame transform (\<^verbatim>\<open>const NedTransform*\<close>, possibly null).\<close>

record NedTransform =
  fromLocalNed :: "Vector3r \<Rightarrow> FVector"
  toLocalNed :: "FVector \<Rightarrow> Vector3r"

datatype FColor = Blue | Red | Green

text \<open>What a tick does besides computing: log lines, debug points, raycast queries, in
  the order in which they happen.\<close>

datatype event =
    EvLogMessage string string
  | EvDrawDebugPoint FVector FColor
  | EvGetObstacle FVector FVector "nat list" bool

datatype error =
    UndefinedConversion
  | IndexOutOfRange
  | UninitialisedRead

text \<open>The collaborators: Unreal's rotators and raycast, AirLib's \<^verbatim>\<open>VectorMath\<close> and
  \<^verbatim>\<open>Utils\<close>. \<^verbatim>\<open>GetObstacle\<close> answers \<open>Some impact\<close> on a hit and \<open>None\<close> on a miss.\<close>

record Engine =
  GetActorRotation :: "AActor \<Rightarrow> FRotator"
  FQuat_Rotator :: "FQuat \<Rightarrow> FRotator"
  RotateVector :: "FRotator \<Rightarrow> FVector \<Rightarrow> FVector"
  UnrotateVector :: "FRotator \<Rightarrow> FVector \<Rightarrow> FVector"
  GetObstacle :: "AActor \<Rightarrow> FVector \<Rightarrow> FVector \<Rightarrow> nat list \<Rightarrow> bool \<Rightarrow> FVector option"
  IsInGameThread :: bool
  toQuaternion :: "real \<Rightarrow> real \<Rightarrow> real \<Rightarrow> Quaternionr"
  degreesToRadians :: "real \<Rightarrow> real"
  rotateQuaternion :: "Quaternionr \<Rightarrow> Quaternionr \<Rightarrow> Quaternionr"
  rotateVector :: "Vector3r \<Rightarrow> Quaternionr \<Rightarrow> Vector3r"
  front :: Vector3r

text \<open>The sensor object. \<^verbatim>\<open>params\<close> is what \<^verbatim>\<open>getParams()\<close> returns; a member \<^verbatim>\<open>name_\<close> of
  the class is the field \<open>name_m\<close>.\<close>

record UnrealLidarSensor =
  params :: LidarSimpleParams
  actor_m :: AActor
  ned_transform_m :: "NedTransform option"
  laser_angles_m :: "real list"
  current_horizontal_angle_m :: real
  ignore_pawn_collision_m :: bool
  draw_debug_points_m :: bool
  ignore_collision_actors_m :: "nat list"

text \<open>What one call of \<^verbatim>\<open>getPointCloud\<close> leaves behind: the sensor, the caller's buffer
  and the effects.\<close>

record TickResult =
  sensor :: UnrealLidarSensor
  point_cloud :: "real list"
  events :: "event list"

subsection \<open>Arithmetic helpers\<close>

definition FVector_add :: "FVector \<Rightarrow> FVector \<Rightarrow> FVector" where
  "FVector_add a b = FVector (fX a + fX b) (fY a + fY b) (fZ a + fZ b)"

definition FVector_sub :: "FVector \<Rightarrow> FVector \<Rightarrow> FVector" where
  "FVector_sub a b = FVector (fX a - fX b) (fY a - fY b) (fZ a - fZ b)"

definition FVector_scale :: "FVector \<Rightarrow> real \<Rightarrow> FVector" where
  "FVector_scale a k = FVector (fX a * k) (fY a * k) (fZ a * k)"

definition Vector3r_add :: "Vector3r \<Rightarrow> Vector3r \<Rightarrow> Vector3r" where
  "Vector3r_add a b = Vector3r (vx a + vx b) (vy a + vy b) (vz a + vz b)"

definition Vector3r_scale :: "Vector3r \<Rightarrow> real \<Rightarrow> Vector3r" where
  "Vector3r_scale a k = Vector3r (vx a * k) (vy a * k) (vz a * k)"

definition Vector3r_Zero :: Vector3r where
  "Vector3r_Zero = Vector3r 0 0 0"

text \<open>Rounding to a binary format with \<open>p\<close> significant bits and least exponent \<open>emin\<close>
  (below \<open>2 powi emin\<close> the spacing stays that of the subnormal numbers): the nearest
  multiple of the spacing at the value, a tie going to the even multiple. The exponent
  has no upper limit here: a result of magnitude \<open>2 ^ 128\<close> (binary32) or more is an
  infinity in the code, and is kept apart by \<open>float_finite\<close> where it matters.\<close>

definition round_ties_to_even :: "real \<Rightarrow> int" where
  "round_ties_to_even r =
     (let f = \<lfloor>r\<rfloor>; d = r - of_int f
      in if d < 1 / 2 then f else if 1 / 2 < d then f + 1 else if even f then f else f + 1)"

definition round_to_format :: "nat \<Rightarrow> int \<Rightarrow> real \<Rightarrow> real" where
  "round_to_format p emin v =
     (if v = 0 then 0
      else
        let e = max emin \<lfloor>log 2 \<bar>v\<bar>\<rfloor>;
            ulp = 2 powi (e - int p + 1)
        in of_int (round_ties_to_even (v / ulp)) * ulp)"

text \<open>A result stored in a \<^verbatim>\<open>float\<close> (binary32) and in a \<^verbatim>\<open>double\<close> (binary64).\<close>

definition to_float :: "real \<Rightarrow> real" where
  "to_float = round_to_format 24 (- 126)"

definition to_double :: "real \<Rightarrow> real" where
  "to_double = round_to_format 53 (- 1022)"

definition float_finite :: "real \<Rightarrow> bool" where
  "float_finite v \<longleftrightarrow> \<bar>v\<bar> < 2 ^ 128"

text \<open>Modelled from the spec: \<^verbatim>\<open>FMath::RoundHalfFromZero\<close> belongs to the engine; the spec
  calls it round-half-away-from-zero. The result is still a floating-point number.\<close>

definition RoundHalfFromZero :: "real \<Rightarrow> real" where
  "RoundHalfFromZero F =
     (if F < 0 then of_int \<lceil>F - 1 / 2\<rceil> else of_int \<lfloor>F + 1 / 2\<rfloor>)"

text \<open>The implicit conversion of a floating-point value to \<^verbatim>\<open>uint32\<close> truncates towards
  zero; C++ leaves it undefined when the truncated value is not a \<^verbatim>\<open>uint32\<close>.\<close>

definition float_to_uint32 :: "real \<Rightarrow> error + nat" where
  "float_to_uint32 r =
     (if - 1 < r \<and> r < 2 ^ 32 then Inr (nat \<lfloor>r\<rfloor>) else Inl UndefinedConversion)"

text \<open>\<^verbatim>\<open>std::fmod\<close>: the remainder of the division truncated towards zero.\<close>

definition fmod :: "real \<Rightarrow> real \<Rightarrow> real" where
  "fmod a b = a - of_int (if a / b < 0 then \<lceil>a / b\<rceil> else \<lfloor>a / b\<rfloor>) * b"

definition MAX_POINTS_IN_SCAN :: real where
  "MAX_POINTS_IN_SCAN = 100000"

text \<open>\<^verbatim>\<open>std::vector::clear\<close>.\<close>

definition vector_clear :: "real list \<Rightarrow> real list" where
  "vector_clear v = []"

subsection \<open>Construction\<close>

text \<open>\<^verbatim>\<open>createLasers\<close> writes the member \<^verbatim>\<open>laser_angles_\<close>; the second argument is the
  member's value before the call. The bounds of the field of view are \<^verbatim>\<open>float\<close>s, and so
  is every intermediate result of lines 59 to 67: the difference, the count converted by
  \<^verbatim>\<open>static_cast<float>\<close>, the quotient, the product and the entry. Each is rounded on its
  own, as a build computes it that neither keeps intermediate results in a wider format
  nor fuses the product with the subtraction.\<close>

definition createLasers :: "LidarSimpleParams \<Rightarrow> real list \<Rightarrow> real list" where
  "createLasers p laser_angles =
     (let number_of_lasers = number_of_channels p in
      if number_of_lasers \<le> 0 then laser_angles
      else if number_of_lasers = 1 then [0]
      else
        let delta_angle =
              to_float (to_float (vertical_FOV_upper p - vertical_FOV_lower p)
                        / to_float (real (number_of_lasers - 1)))
        in map (\<lambda>i. to_float (vertical_FOV_upper p - to_float (to_float (real i) * delta_angle)))
               [0..<number_of_lasers])"

text \<open>When the model of \<^verbatim>\<open>createLasers\<close> is the code: the bounds are \<^verbatim>\<open>float\<close>s and no
  operation overflows. And when its arithmetic is exact: no operation rounds.\<close>

definition createLasers_in_range :: "LidarSimpleParams \<Rightarrow> bool" where
  "createLasers_in_range p \<longleftrightarrow>
     (let upper = vertical_FOV_upper p; lower = vertical_FOV_lower p;
          n = number_of_channels p;
          delta_angle = to_float (to_float (upper - lower) / to_float (real (n - 1)))
      in to_float upper = upper \<and> float_finite upper \<and>
         to_float lower = lower \<and> float_finite lower \<and>
         float_finite (to_float (upper - lower)) \<and> float_finite delta_angle \<and>
         (\<forall>i < n. float_finite (to_float (to_float (real i) * delta_angle)) \<and>
                  float_finite (to_float (upper - to_float (to_float (real i) * delta_angle)))))"

definition createLasers_exact :: "LidarSimpleParams \<Rightarrow> bool" where
  "createLasers_exact p \<longleftrightarrow>
     (let upper = vertical_FOV_upper p; lower = vertical_FOV_lower p;
          n = number_of_channels p;
          step = (upper - lower) / real (n - 1)
      in to_float (upper - lower) = upper - lower \<and>
         to_float (real (n - 1)) = real (n - 1) \<and>
         to_float step = step \<and>
         (\<forall>i < n. to_float (real i) = real i \<and>
                  to_float (real i * step) = real i * step \<and>
                  to_float (upper - real i * step) = upper - real i * step))"

text \<open>The distance that the rounding of lines 59 to 67 can put between an entry of the
  table and the exact value of the formula: four operations, each within half a unit
  in the last place of a binary32 number.\<close>

definition createLasers_tolerance :: "LidarSimpleParams \<Rightarrow> real" where
  "createLasers_tolerance p =
     (\<bar>vertical_FOV_upper p\<bar> + \<bar>vertical_FOV_lower p\<bar>) / 2 ^ 20
     + real (number_of_channels p) / 2 ^ 147"

text \<open>The constructor. The vector of angles and the rotation angle start empty and at
  zero (their declarations are in the header).\<close>

definition new_UnrealLidarSensor ::
  "LidarSimpleParams \<Rightarrow> AActor \<Rightarrow> NedTransform option \<Rightarrow> UnrealLidarSensor" where
  "new_UnrealLidarSensor p actor ned_transform =
     \<lparr> params = p,
       actor_m = actor,
       ned_transform_m = ned_transform,
       laser_angles_m = createLasers p [],
       current_horizontal_angle_m = 0,
       ignore_pawn_collision_m = ignore_pawn_collision p,
       draw_debug_points_m = draw_debug_points p,
       ignore_collision_actors_m =
         (if ignore_pawn_collision p
          then (case actor of AUrdfLink _ owner \<Rightarrow> [owner] | PlainActor _ \<Rightarrow> [])
          else []) \<rparr>"

subsection \<open>One ray\<close>

text \<open>Lines 269 to 273 (and 245 to 249): the difference vector is taken back through the
  actor's and then the mount's rotator. A rotator that was declared and never assigned
  (\<open>None\<close>) cannot be read.\<close>

definition unrotate_to_pose ::
  "Engine \<Rightarrow> FRotator option \<Rightarrow> FRotator option \<Rightarrow> FVector \<Rightarrow> error + Vector3r" where
  "unrotate_to_pose h actorRotator poseRotator diffVec =
     (case actorRotator of
        None \<Rightarrow> Inl UninitialisedRead
      | Some ar \<Rightarrow>
          (case poseRotator of
             None \<Rightarrow> Inl UninitialisedRead
           | Some pr \<Rightarrow>
               (let inActor = UnrotateVector h ar diffVec;
                    inPose = UnrotateVector h pr inActor
                in Inr (Vector3r (fX inPose) (fY inPose) (fZ inPose)))))"

text \<open>\<^verbatim>\<open>shootLaser\<close>. The result is the returned flag, the out-parameter \<^verbatim>\<open>point\<close> and the
  effects. In the branch with a reference transform, line 196 declares a new local
  \<^verbatim>\<open>end\<close>; the \<^verbatim>\<open>end\<close> of line 151 keeps its value \<^verbatim>\<open>Zero\<close> and is the one line 205 reads.
  The Euler angles of lines 179 to 192 and the length of line 210 are computed and
  never used.\<close>

definition shootLaser ::
  "Engine \<Rightarrow> UnrealLidarSensor \<Rightarrow> Pose \<Rightarrow> Pose \<Rightarrow> Vector3r \<Rightarrow> nat \<Rightarrow> real \<Rightarrow>
   LidarSimpleParams \<Rightarrow> error + (bool \<times> Vector3r \<times> event list)" where
  "shootLaser h s lidar_pose vehicle_pose start laser horizontalAngle p =
     (if laser < length (laser_angles_m s) then
        let vertical_angle = laser_angles_m s ! laser;
            end = Vector3r_Zero;
            startVec = FVector (vx start) (vy start) (vz start);
            (end, endVec, poseRotator, actorRotator) =
              (case ned_transform_m s of
                 None \<Rightarrow>
                   let rayRotator = FRotator vertical_angle horizontalAngle 0;
                       o_l = orientation lidar_pose;
                       poseRotator = FQuat_Rotator h (FQuat (qx o_l) (qy o_l) (qz o_l) (qw o_l));
                       actorRotator = GetActorRotation h (actor_m s);
                       endVec = FVector 1 0 0;
                       endVec = RotateVector h rayRotator endVec;
                       endVec = RotateVector h poseRotator endVec;
                       endVec = RotateVector h actorRotator endVec;
                       endVec = FVector_add (FVector_scale endVec (lidar_range p)) startVec
                   in (Vector3r (fX endVec) (fY endVec) (fZ endVec), endVec,
                       Some poseRotator, Some actorRotator)
               | Some _ \<Rightarrow>
                   let ray_q_l = toQuaternion h (degreesToRadians h vertical_angle) 0
                                   (degreesToRadians h horizontalAngle);
                       ray_q_b = rotateQuaternion h ray_q_l (orientation lidar_pose);
                       ray_q_w = rotateQuaternion h ray_q_b (orientation vehicle_pose);
                       end_196 = Vector3r_add
                                   (Vector3r_scale (rotateVector h (front h) ray_q_w) (lidar_range p))
                                   start
                   in (end, FVector (vx end_196) (vy end_196) (vz end_196), None, None));
            (startVec, endVec) =
              (case ned_transform_m s of
                 None \<Rightarrow> (startVec, endVec)
               | Some ned \<Rightarrow> (fromLocalNed ned start, fromLocalNed ned end));
            is_hit = GetObstacle h (actor_m s) startVec endVec
                       (ignore_collision_actors_m s) (ignore_pawn_collision_m s);
            query = [EvGetObstacle startVec endVec
                       (ignore_collision_actors_m s) (ignore_pawn_collision_m s)]
        in (case is_hit of
              Some ImpactPoint \<Rightarrow>
                (let drawn = (if IsInGameThread h \<and> draw_debug_points_m s
                              then [EvDrawDebugPoint ImpactPoint Red] else [])
                 in (case ned_transform_m s of
                       Some ned \<Rightarrow> Inr (True, toLocalNed ned ImpactPoint, query @ drawn)
                     | None \<Rightarrow>
                         (case unrotate_to_pose h actorRotator poseRotator
                                 (FVector_sub ImpactPoint startVec) of
                            Inl e \<Rightarrow> Inl e
                          | Inr point \<Rightarrow> Inr (True, point, query @ drawn))))
            | None \<Rightarrow>
                (let drawn = (if draw_debug_points_m s
                              then [EvDrawDebugPoint endVec Green] else [])
                 in (case unrotate_to_pose h actorRotator poseRotator
                            (FVector_sub endVec startVec) of
                       Inl e \<Rightarrow> Inl e
                     | Inr point \<Rightarrow> Inr (True, point, query @ drawn))))
      else Inl IndexOutOfRange)"

subsection \<open>One tick\<close>

text \<open>Lines 83 to 92 of \<^verbatim>\<open>getPointCloud\<close>: the number of points for each laser, and the
  log line of the cap. The elapsed time is a \<^verbatim>\<open>double\<close>, so the product of line 84 is
  rounded to binary64 before it is rounded to a whole number; the comparison of line
  85 and the quotient of line 92 are in \<^verbatim>\<open>float\<close>. A product beyond the largest
  \<^verbatim>\<open>double\<close> is beyond every \<^verbatim>\<open>uint32\<close> too, and ends in the same error. Dividing by
  \<^verbatim>\<open>float(0)\<close> gives an infinity or NaN, which rounding keeps and which has no
  \<^verbatim>\<open>uint32\<close> value.\<close>

definition scan_budget :: "LidarSimpleParams \<Rightarrow> real \<Rightarrow> error + (nat \<times> event list)" where
  "scan_budget p delta_time =
     (let number_of_lasers = number_of_channels p in
      case float_to_uint32
             (RoundHalfFromZero (to_double (points_per_second p * delta_time))) of
        Inl e \<Rightarrow> Inl e
      | Inr total_points_to_scan \<Rightarrow>
          (let (total_points_to_scan, logged) =
                 (if to_float (real total_points_to_scan) > MAX_POINTS_IN_SCAN
                  then (nat \<lfloor>MAX_POINTS_IN_SCAN\<rfloor>,
                        [EvLogMessage ''Lidar: '' ''Capping number of points to scan''])
                  else (total_points_to_scan, []))
           in if number_of_lasers = 0 then Inl UndefinedConversion
              else
                (case float_to_uint32
                        (RoundHalfFromZero
                           (to_float (to_float (real total_points_to_scan)
                                      / to_float (real number_of_lasers)))) of
                   Inl e \<Rightarrow> Inl e
                 | Inr points_to_scan_with_one_laser \<Rightarrow>
                     Inr (points_to_scan_with_one_laser, logged))))"

text \<open>The inner loop (lines 126 to 137) over the samples of one laser and the outer loop
  (line 124) over the lasers. \<open>shoot laser i\<close> is the call of \<^verbatim>\<open>shootLaser\<close> for sample
  \<open>i\<close>; the accumulator is the buffer and the effects so far.\<close>

primrec sample_loop ::
  "(nat \<Rightarrow> nat \<Rightarrow> error + (bool \<times> Vector3r \<times> event list)) \<Rightarrow> nat \<Rightarrow> nat list \<Rightarrow>
   real list \<times> event list \<Rightarrow> error + (real list \<times> event list)" where
  "sample_loop shoot laser [] acc = Inr acc"
| "sample_loop shoot laser (i # rest) acc =
     (case shoot laser i of
        Inl e \<Rightarrow> Inl e
      | Inr (hit, point, evs) \<Rightarrow>
          sample_loop shoot laser rest
            (if hit then fst acc @ [vx point, vy point, vz point] else fst acc,
             snd acc @ evs))"

primrec laser_loop ::
  "(nat \<Rightarrow> nat \<Rightarrow> error + (bool \<times> Vector3r \<times> event list)) \<Rightarrow> nat \<Rightarrow> nat list \<Rightarrow>
   real list \<times> event list \<Rightarrow> error + (real list \<times> event list)" where
  "laser_loop shoot n [] acc = Inr acc"
| "laser_loop shoot n (laser # rest) acc =
     (case sample_loop shoot laser [0..<n] acc of
        Inl e \<Rightarrow> Inl e
      | Inr acc' \<Rightarrow> laser_loop shoot n rest acc')"

text \<open>The ray origin (lines 104 to 109), the sweep of the tick (line 100) and the call
  of \<^verbatim>\<open>shootLaser\<close> for a sample (lines 129 and 131).\<close>

definition ray_start :: "Engine \<Rightarrow> Pose \<Rightarrow> Pose \<Rightarrow> Vector3r" where
  "ray_start h lidar_pose vehicle_pose =
     Vector3r_add (position vehicle_pose)
       (rotateVector h (position lidar_pose) (orientation vehicle_pose))"

definition angle_distance_of_tick :: "LidarSimpleParams \<Rightarrow> real \<Rightarrow> real" where
  "angle_distance_of_tick p delta_time = horizontal_rotation_frequency p * 360 * delta_time"

definition shoot_sample ::
  "Engine \<Rightarrow> UnrealLidarSensor \<Rightarrow> Pose \<Rightarrow> Pose \<Rightarrow> real \<Rightarrow> nat \<Rightarrow> nat \<Rightarrow> nat \<Rightarrow>
   error + (bool \<times> Vector3r \<times> event list)" where
  "shoot_sample h s lidar_pose vehicle_pose delta_time n laser i =
     (let angle_distance_of_laser_measure = angle_distance_of_tick (params s) delta_time / real n;
          angle = current_horizontal_angle_m s + angle_distance_of_laser_measure * real i
      in shootLaser h s lidar_pose vehicle_pose (ray_start h lidar_pose vehicle_pose)
           laser angle (params s))"

text \<open>\<^verbatim>\<open>getPointCloud\<close>. The last argument is the caller's buffer as it comes in.\<close>

definition getPointCloud ::
  "Engine \<Rightarrow> UnrealLidarSensor \<Rightarrow> Pose \<Rightarrow> Pose \<Rightarrow> real \<Rightarrow> real list \<Rightarrow> error + TickResult" where
  "getPointCloud h s lidar_pose vehicle_pose delta_time point_cloud0 =
     (let cleared = vector_clear point_cloud0;
          number_of_lasers = number_of_channels (params s)
      in case scan_budget (params s) delta_time of
           Inl e \<Rightarrow> Inl e
         | Inr (points_to_scan_with_one_laser, logged) \<Rightarrow>
             if points_to_scan_with_one_laser \<le> 0
             then Inr \<lparr> sensor = s, point_cloud = cleared, events = logged \<rparr>
             else
               (let start = ray_start h lidar_pose vehicle_pose;
                    drawn = (if draw_debug_points_m s
                             then [EvDrawDebugPoint (FVector (vx start) (vy start) (vz start)) Blue]
                             else [])
                in case laser_loop
                          (shoot_sample h s lidar_pose vehicle_pose delta_time
                             points_to_scan_with_one_laser)
                          points_to_scan_with_one_laser [0..<number_of_lasers]
                          (cleared, logged @ drawn) of
                     Inl e \<Rightarrow> Inl e
                   | Inr (cloud, evs) \<Rightarrow>
                       Inr \<lparr> sensor = s\<lparr> current_horizontal_angle_m :=
                                   fmod (current_horizontal_angle_m s
                                         + angle_distance_of_tick (params s) delta_time) 360 \<rparr>,
                             point_cloud = cloud,
                             events = evs \<rparr>))"

text \<open>A sequence of ticks on one sensor: each tick is the mount pose, the vehicle pose,
  the elapsed time and the buffer the caller hands in.\<close>

primrec run_ticks ::
  "Engine \<Rightarrow> UnrealLidarSensor \<Rightarrow> (Pose \<times> Pose \<times> real \<times> real list) list \<Rightarrow>
   error + UnrealLidarSensor" where
  "run_ticks h s [] = Inr s"
| "run_ticks h s (t # ts) =
     (case getPointCloud h s (fst t) (fst (snd t)) (fst (snd (snd t))) (snd (snd (snd t))) of
        Inl e \<Rightarrow> Inl e
      | Inr r \<Rightarrow> run_ticks h (sensor r) ts)"

subsection \<open>Reading the loops\<close>

text \<open>The (channel, sample) pairs of a tick in the order of the two loops, and what one
  call of \<^verbatim>\<open>shootLaser\<close> adds to the buffer and to the effects.\<close>

definition emission_order :: "nat \<Rightarrow> nat \<Rightarrow> (nat \<times> nat) list" where
  "emission_order number_of_lasers n =
     concat (map (\<lambda>laser. map (\<lambda>i. (laser, i)) [0..<n]) [0..<number_of_lasers])"

definition sample_coords :: "error + (bool \<times> Vector3r \<times> event list) \<Rightarrow> real list" where
  "sample_coords res =
     (case res of
        Inl _ \<Rightarrow> []
      | Inr (hit, point, _) \<Rightarrow> if hit then [vx point, vy point, vz point] else [])"

definition sample_events :: "error + (bool \<times> Vector3r \<times> event list) \<Rightarrow> event list" where
  "sample_events res = (case res of Inl _ \<Rightarrow> [] | Inr (_, _, evs) \<Rightarrow> evs)"

text \<open>A call of \<^verbatim>\<open>shootLaser\<close> without its effects.\<close>

definition strip_events ::
  "error + (bool \<times> Vector3r \<times> event list) \<Rightarrow> error + (bool \<times> Vector3r)" where
  "strip_events res = (case res of Inl e \<Rightarrow> Inl e | Inr (hit, pt, _) \<Rightarrow> Inr (hit, pt))"

definition is_raycast :: "event \<Rightarrow> bool" where
  "is_raycast ev = (case ev of EvGetObstacle _ _ _ _ \<Rightarrow> True | _ \<Rightarrow> False)"

text \<open>The numeric outcome of a tick: the cloud and the rotation angle it leaves.\<close>

definition numeric_outcome :: "error + TickResult \<Rightarrow> error + (real list \<times> real)" where
  "numeric_outcome res =
     (case res of
        Inl e \<Rightarrow> Inl e
      | Inr r \<Rightarrow> Inr (point_cloud r, current_horizontal_angle_m (sensor r)))"

subsection \<open>The pipeline without a reference transform\<close>

text \<open>The endpoint of the ray (lines 160 to 167) and the way back into the frame of the
  sensor (lines 245 to 249 on a hit, 269 to 273 on a miss).\<close>

definition direct_end :: "Engine \<Rightarrow> UnrealLidarSensor \<Rightarrow> Pose \<Rightarrow> Vector3r \<Rightarrow> nat \<Rightarrow> real \<Rightarrow> real \<Rightarrow> FVector" where
  "direct_end h s lidar_pose start laser angle rng =
     FVector_add
       (FVector_scale
          (RotateVector h (GetActorRotation h (actor_m s))
             (RotateVector h
                (FQuat_Rotator h (FQuat (qx (orientation lidar_pose)) (qy (orientation lidar_pose))
                                        (qz (orientation lidar_pose)) (qw (orientation lidar_pose))))
                (RotateVector h (FRotator (laser_angles_m s ! laser) angle 0) (FVector 1 0 0))))
          rng)
       (FVector (vx start) (vy start) (vz start))"

definition to_sensor_frame :: "Engine \<Rightarrow> UnrealLidarSensor \<Rightarrow> Pose \<Rightarrow> FVector \<Rightarrow> Vector3r" where
  "to_sensor_frame h s lidar_pose d =
     (let inPose =
            UnrotateVector h
              (FQuat_Rotator h (FQuat (qx (orientation lidar_pose)) (qy (orientation lidar_pose))
                                      (qz (orientation lidar_pose)) (qw (orientation lidar_pose))))
              (UnrotateVector h (GetActorRotation h (actor_m s)) d)
      in Vector3r (fX inPose) (fY inPose) (fZ inPose))"

subsection \<open>The scheduler and the ray endpoint in the words of the specification\<close>

text \<open>Rounding half away from zero, on the integers: the magnitude is rounded half up
  and the sign is kept.\<close>

definition spec_round :: "real \<Rightarrow> int" where
  "spec_round v = (if v < 0 then - \<lfloor>- v + 1 / 2\<rfloor> else \<lfloor>v + 1 / 2\<rfloor>)"

definition spec_rawTotal :: "LidarSimpleParams \<Rightarrow> real \<Rightarrow> int" where
  "spec_rawTotal p deltaTime = spec_round (points_per_second p * deltaTime)"

definition spec_clampedTotal :: "LidarSimpleParams \<Rightarrow> real \<Rightarrow> int" where
  "spec_clampedTotal p deltaTime = min (spec_rawTotal p deltaTime) 100000"

definition spec_pointsPerLaser :: "LidarSimpleParams \<Rightarrow> real \<Rightarrow> int" where
  "spec_pointsPerLaser p deltaTime =
     spec_round (of_int (spec_clampedTotal p deltaTime) / real (number_of_channels p))"

definition spec_warning :: "LidarSimpleParams \<Rightarrow> real \<Rightarrow> event list" where
  "spec_warning p deltaTime =
     (if 100000 < spec_rawTotal p deltaTime
      then [EvLogMessage ''Lidar: '' ''Capping number of points to scan''] else [])"

text \<open>The endpoint the specification gives for the pipeline with a reference
  transform: the origin plus the forward vector, rotated by the composed quaternion and
  scaled by the range, mapped into the reference frame.\<close>

definition spec_ned_endpoint ::
  "Engine \<Rightarrow> NedTransform \<Rightarrow> Pose \<Rightarrow> Pose \<Rightarrow> Vector3r \<Rightarrow> real \<Rightarrow> real \<Rightarrow> real \<Rightarrow> FVector" where
  "spec_ned_endpoint h ned lidar_pose vehicle_pose origin verticalAngle horizontalAngle rng =
     (let q_l = toQuaternion h (degreesToRadians h verticalAngle) 0
                  (degreesToRadians h horizontalAngle);
          q_b = rotateQuaternion h q_l (orientation lidar_pose);
          q_w = rotateQuaternion h q_b (orientation vehicle_pose)
      in fromLocalNed ned
           (Vector3r_add (Vector3r_scale (rotateVector h (front h) q_w) rng) origin))"

subsection \<open>A bench for concrete runs\<close>

text \<open>An engine to run the sensor on concrete inputs. The quaternion helpers follow
  the usual formulas (Hamilton product, rotation by conjugation, Tait-Bryan angles);
  the rotators follow Unreal's rotation matrix, angles in degrees. The bench actor and
  every mount are unrotated. The raycast is a parameter of the bench.\<close>

definition qmul :: "Quaternionr \<Rightarrow> Quaternionr \<Rightarrow> Quaternionr" where
  "qmul a b =
     Quaternionr
       (qw a * qw b - qx a * qx b - qy a * qy b - qz a * qz b)
       (qw a * qx b + qx a * qw b + qy a * qz b - qz a * qy b)
       (qw a * qy b - qx a * qz b + qy a * qw b + qz a * qx b)
       (qw a * qz b + qx a * qy b - qy a * qx b + qz a * qw b)"

definition qconj :: "Quaternionr \<Rightarrow> Quaternionr" where
  "qconj a = Quaternionr (qw a) (- qx a) (- qy a) (- qz a)"

definition bench_toQuaternion :: "real \<Rightarrow> real \<Rightarrow> real \<Rightarrow> Quaternionr" where
  "bench_toQuaternion pitch roll yaw =
     (let t0 = cos (yaw * (1 / 2)); t1 = sin (yaw * (1 / 2));
          t2 = cos (roll * (1 / 2)); t3 = sin (roll * (1 / 2));
          t4 = cos (pitch * (1 / 2)); t5 = sin (pitch * (1 / 2))
      in Quaternionr
           (t0 * t2 * t4 + t1 * t3 * t5)
           (t0 * t3 * t4 - t1 * t2 * t5)
           (t0 * t2 * t5 + t1 * t3 * t4)
           (t1 * t2 * t4 - t0 * t3 * t5))"

definition bench_rotateVector :: "Vector3r \<Rightarrow> Quaternionr \<Rightarrow> Vector3r" where
  "bench_rotateVector v q =
     (let r = qmul (qmul q (Quaternionr 0 (vx v) (vy v) (vz v))) (qconj q)
      in Vector3r (qx r) (qy r) (qz r))"

definition rotator_rows :: "FRotator \<Rightarrow> FVector \<times> FVector \<times> FVector" where
  "rotator_rows r =
     (case r of
        FRotator Pitch Yaw Roll \<Rightarrow>
          (let SP = sin (Pitch * pi / 180); CP = cos (Pitch * pi / 180);
               SY = sin (Yaw * pi / 180); CY = cos (Yaw * pi / 180);
               SR = sin (Roll * pi / 180); CR = cos (Roll * pi / 180)
           in (FVector (CP * CY) (CP * SY) SP,
               FVector (SR * SP * CY - CR * SY) (SR * SP * SY + CR * CY) (- SR * CP),
               FVector (- (CR * SP * CY + SR * SY)) (CY * SR - CR * SP * SY) (CR * CP))))"

definition FVector_dot :: "FVector \<Rightarrow> FVector \<Rightarrow> real" where
  "FVector_dot a b = fX a * fX b + fY a * fY b + fZ a * fZ b"

definition bench_RotateVector :: "FRotator \<Rightarrow> FVector \<Rightarrow> FVector" where
  "bench_RotateVector r v =
     (case rotator_rows r of
        (a, b, c) \<Rightarrow>
          FVector_add (FVector_add (FVector_scale a (fX v)) (FVector_scale b (fY v)))
            (FVector_scale c (fZ v)))"

definition bench_UnrotateVector :: "FRotator \<Rightarrow> FVector \<Rightarrow> FVector" where
  "bench_UnrotateVector r v =
     (case rotator_rows r of
        (a, b, c) \<Rightarrow> FVector (FVector_dot v a) (FVector_dot v b) (FVector_dot v c))"

definition bench_engine :: "(FVector \<Rightarrow> FVector \<Rightarrow> FVector option) \<Rightarrow> Engine" where
  "bench_engine raycast =
     \<lparr> GetActorRotation = (\<lambda>_. FRotator 0 0 0),
       FQuat_Rotator = (\<lambda>_. FRotator 0 0 0),
       RotateVector = bench_RotateVector,
       UnrotateVector = bench_UnrotateVector,
       GetObstacle = (\<lambda>_ startVec endVec _ _. raycast startVec endVec),
       IsInGameThread = True,
       toQuaternion = bench_toQuaternion,
       degreesToRadians = (\<lambda>d. d * pi / 180),
       rotateQuaternion = (\<lambda>q ref. qmul (qmul ref q) (qconj ref)),
       rotateVector = bench_rotateVector,
       front = Vector3r 1 0 0 \<rparr>"

text \<open>Two kinds of world: one in which no ray hits anything, one in which every ray is
  answered with the same synthetic impact.\<close>

definition empty_world :: "FVector \<Rightarrow> FVector \<Rightarrow> FVector option" where
  "empty_world startVec endVec = None"

definition hit_world :: "FVector \<Rightarrow> FVector \<Rightarrow> FVector \<Rightarrow> FVector option" where
  "hit_world impact startVec endVec = Some impact"

text \<open>A reference transform in the style of the simulator (centimetres, the vertical axis
  flipped, no offset) and the trivial one.\<close>

definition bench_ned :: NedTransform where
  "bench_ned =
     \<lparr> fromLocalNed = (\<lambda>v. FVector (vx v * 100) (vy v * 100) (- vz v * 100)),
       toLocalNed = (\<lambda>f. Vector3r (fX f / 100) (fY f / 100) (- fZ f / 100)) \<rparr>"

definition identity_ned :: NedTransform where
  "identity_ned =
     \<lparr> fromLocalNed = (\<lambda>v. FVector (vx v) (vy v) (vz v)),
       toLocalNed = (\<lambda>f. Vector3r (fX f) (fY f) (fZ f)) \<rparr>"

definition bench_params :: LidarSimpleParams where
  "bench_params =
     \<lparr> number_of_channels = 4, lidar_range = 10, points_per_second = 400,
       horizontal_rotation_frequency = 1, vertical_FOV_upper = 15, vertical_FOV_lower = - 15,
       ignore_pawn_collision = True, draw_debug_points = False \<rparr>"

definition one_channel :: LidarSimpleParams where
  "one_channel = bench_params\<lparr> number_of_channels := 1, points_per_second := 10 \<rparr>"

definition fourteen_channels :: LidarSimpleParams where
  "fourteen_channels =
     bench_params\<lparr> number_of_channels := 14,
                   vertical_FOV_upper := 7, vertical_FOV_lower := - 7 \<rparr>"

definition two_channels :: LidarSimpleParams where
  "two_channels =
     bench_params\<lparr> number_of_channels := 2, points_per_second := 4,
                   vertical_FOV_upper := 0, vertical_FOV_lower := - 90 \<rparr>"

definition unrotated :: "Vector3r \<Rightarrow> Pose" where
  "unrotated v = \<lparr> position = v, orientation = Quaternionr 1 0 0 0 \<rparr>"

section \<open>Properties\<close>

subsection \<open>Rounding\<close>

text \<open>How to evaluate a rounding: name the binade and the multiple. Whole numbers
  within the precision are not rounded.\<close>

lemma round_ties_to_even_near:
  assumes "\<bar>r - of_int m\<bar> < 1 / 2"
  shows "round_ties_to_even r = m"
proof -
  from assms have lo: "of_int m - 1 / 2 < r" and hi: "r < of_int m + 1 / 2" by linarith+
  show ?thesis
  proof (cases "of_int m \<le> r")
    case True
    with hi have "\<lfloor>r\<rfloor> = m" by (intro floor_unique) simp_all
    with hi show ?thesis by (simp add: round_ties_to_even_def Let_def)
  next
    case False
    then have lt: "r < of_int m" by simp
    with lo have "\<lfloor>r\<rfloor> = m - 1" by (intro floor_unique) simp_all
    with lo show ?thesis by (simp add: round_ties_to_even_def Let_def)
  qed
qed

lemma round_ties_to_even_of_int: "round_ties_to_even (of_int m) = m"
  by (rule round_ties_to_even_near) simp

lemma floor_log2_eqI:
  assumes "2 powi e \<le> \<bar>v\<bar>" and "\<bar>v\<bar> < 2 powi (e + 1)"
  shows "\<lfloor>log 2 \<bar>v\<bar>\<rfloor> = e"
proof -
  have pos: "0 < \<bar>v\<bar>"
  proof -
    have "(0::real) < 2 powi e" by simp
    with assms(1) show ?thesis by linarith
  qed
  have "(2::real) powr real_of_int e = 2 powi e" by (simp add: powr_real_of_int')
  moreover have "(2::real) powr real_of_int (e + 1) = 2 powi (e + 1)"
    by (rule powr_real_of_int') simp_all
  moreover have "real_of_int (e + 1) = real_of_int e + 1" by simp
  ultimately have "2 powr real_of_int e \<le> \<bar>v\<bar> \<and> \<bar>v\<bar> < 2 powr (real_of_int e + 1)"
    using assms by simp
  with pos show ?thesis by (simp add: floor_log_eq_powr_iff)
qed

lemma round_ties_to_even_tie:
  assumes "\<bar>r - of_int m\<bar> = 1 / 2" and "even m"
  shows "round_ties_to_even r = m"
proof (cases "of_int m \<le> r")
  case True
  with assms(1) have r: "r = of_int m + 1 / 2" by linarith
  then have "\<lfloor>r\<rfloor> = m" by (intro floor_unique) simp_all
  with r assms(2) show ?thesis by (simp add: round_ties_to_even_def Let_def)
next
  case False
  with assms(1) have r: "r = of_int m - 1 / 2" by linarith
  then have f: "\<lfloor>r\<rfloor> = m - 1" by (intro floor_unique) simp_all
  from assms(2) have "odd (m - 1)" by simp
  with r f show ?thesis by (simp add: round_ties_to_even_def Let_def)
qed

lemma round_ties_to_even_nearest:
  assumes "\<bar>r - of_int m\<bar> < 1 / 2 \<or> \<bar>r - of_int m\<bar> = 1 / 2 \<and> even m"
  shows "round_ties_to_even r = m"
  using assms round_ties_to_even_near round_ties_to_even_tie by blast

lemma round_to_format_evalI:
  assumes "emin \<le> e" and "2 powi e \<le> \<bar>v\<bar>" and "\<bar>v\<bar> < 2 powi (e + 1)"
    and "\<bar>v / 2 powi (e - int p + 1) - of_int m\<bar> < 1 / 2 \<or>
         \<bar>v / 2 powi (e - int p + 1) - of_int m\<bar> = 1 / 2 \<and> even m"
    and "r = of_int m * 2 powi (e - int p + 1)"
  shows "round_to_format p emin v = r"
proof -
  have "(0::real) < 2 powi e" by simp
  with assms(2) have "0 < \<bar>v\<bar>" by linarith
  then have nz: "v \<noteq> 0" by simp
  have e: "max emin \<lfloor>log 2 \<bar>v\<bar>\<rfloor> = e"
    using floor_log2_eqI [OF assms(2,3)] assms(1) by simp
  show ?thesis
    using nz
    by (simp add: round_to_format_def Let_def e round_ties_to_even_nearest [OF assms(4)] assms(5))
qed

lemma to_float_evalI:
  assumes "- 126 \<le> e" and "2 powi e \<le> \<bar>v\<bar>" and "\<bar>v\<bar> < 2 powi (e + 1)"
    and "\<bar>v / 2 powi (e - 23) - of_int m\<bar> < 1 / 2 \<or>
         \<bar>v / 2 powi (e - 23) - of_int m\<bar> = 1 / 2 \<and> even m"
    and "r = of_int m * 2 powi (e - 23)"
  shows "to_float v = r"
  unfolding to_float_def
  by (rule round_to_format_evalI [where e = e and m = m]) (use assms in simp_all)

lemma to_double_evalI:
  assumes "- 1022 \<le> e" and "2 powi e \<le> \<bar>v\<bar>" and "\<bar>v\<bar> < 2 powi (e + 1)"
    and "\<bar>v / 2 powi (e - 52) - of_int m\<bar> < 1 / 2 \<or>
         \<bar>v / 2 powi (e - 52) - of_int m\<bar> = 1 / 2 \<and> even m"
    and "r = of_int m * 2 powi (e - 52)"
  shows "to_double v = r"
  unfolding to_double_def
  by (rule round_to_format_evalI [where e = e and m = m]) (use assms in simp_all)

lemma round_to_format_zero: "round_to_format p emin 0 = 0"
  by (simp add: round_to_format_def)

lemma round_to_format_of_int:
  assumes m: "\<bar>m\<bar> < 2 ^ p" and emin: "emin \<le> 0"
  shows "round_to_format p emin (of_int m) = of_int m"
proof (cases "m = 0")
  case True
  then show ?thesis by (simp add: round_to_format_zero)
next
  case False
  define v :: real where "v = of_int m"
  define e where "e = \<lfloor>log 2 \<bar>v\<bar>\<rfloor>"
  from False have one: "1 \<le> \<bar>v\<bar>"
  proof -
    from False have "1 \<le> \<bar>m\<bar>" by simp
    then have "(of_int 1 :: real) \<le> of_int \<bar>m\<bar>" by (simp only: of_int_le_iff)
    then show ?thesis by (simp add: v_def)
  qed
  then have pos: "0 < \<bar>v\<bar>" by linarith
  have lt: "\<bar>v\<bar> < 2 ^ p"
  proof -
    from m have "(of_int \<bar>m\<bar> :: real) < of_int (2 ^ p)" by (simp only: of_int_less_iff)
    then show ?thesis by (simp add: v_def)
  qed
  have e0: "0 \<le> e"
    using one by (simp add: e_def)
  have bounds: "2 powr real_of_int e \<le> \<bar>v\<bar>"
    using floor_log_eq_powr_iff [of "\<bar>v\<bar>" 2 e] pos by (simp add: e_def)
  have ep: "e < int p"
  proof -
    from bounds lt have "2 powr real_of_int e < 2 ^ p" by linarith
    also have "(2::real) ^ p = 2 powr real p" by (simp add: powr_realpow)
    finally have "real_of_int e < real p" by simp
    then show ?thesis by linarith
  qed
  define n where "n = nat (int p - 1 - e)"
  have en: "e - int p + 1 = - int n" using ep by (simp add: n_def)
  have ulp: "(2::real) powi (e - int p + 1) = inverse (2 ^ n)"
    unfolding en by (simp add: power_int_minus)
  have q: "v / 2 powi (e - int p + 1) = of_int (m * 2 ^ n)"
    unfolding ulp by (simp add: v_def divide_inverse)
  have mx: "max emin e = e" using emin e0 by simp
  have nz: "v \<noteq> 0" using pos by simp
  have "round_to_format p emin v
          = of_int (round_ties_to_even (v / 2 powi (e - int p + 1))) * 2 powi (e - int p + 1)"
    using nz by (simp add: round_to_format_def Let_def e_def [symmetric] mx)
  also have "\<dots> = of_int (m * 2 ^ n) * inverse (2 ^ n)"
    unfolding q round_ties_to_even_of_int by (simp only: ulp)
  finally have "round_to_format p emin v = of_int (m * 2 ^ n) * inverse (2 ^ n)" .
  then show ?thesis by (simp add: v_def)
qed

lemma to_float_of_int: "\<bar>m\<bar> < 2 ^ 24 \<Longrightarrow> to_float (of_int m) = of_int m"
  unfolding to_float_def by (rule round_to_format_of_int) simp_all

lemma to_double_of_int: "\<bar>m\<bar> < 2 ^ 53 \<Longrightarrow> to_double (of_int m) = of_int m"
  unfolding to_double_def by (rule round_to_format_of_int) simp_all

lemma to_float_zero [simp]: "to_float 0 = 0"
  by (simp add: to_float_def round_to_format_zero)

lemma to_double_zero [simp]: "to_double 0 = 0"
  by (simp add: to_double_def round_to_format_zero)

lemma to_float_one [simp]: "to_float 1 = 1"
  using to_float_of_int [of 1] by simp

lemma to_double_one [simp]: "to_double 1 = 1"
  using to_double_of_int [of 1] by simp

lemma to_float_numeral [simp]:
  "(numeral k :: int) < 2 ^ 24 \<Longrightarrow> to_float (numeral k) = numeral k"
  using to_float_of_int [of "numeral k"] by simp

lemma to_float_neg_numeral [simp]:
  "(numeral k :: int) < 2 ^ 24 \<Longrightarrow> to_float (- numeral k) = - numeral k"
  using to_float_of_int [of "- numeral k"] by simp

lemma to_double_numeral [simp]:
  "(numeral k :: int) < 2 ^ 53 \<Longrightarrow> to_double (numeral k) = numeral k"
  using to_double_of_int [of "numeral k"] by simp

lemma to_double_neg_numeral [simp]:
  "(numeral k :: int) < 2 ^ 53 \<Longrightarrow> to_double (- numeral k) = - numeral k"
  using to_double_of_int [of "- numeral k"] by simp

text \<open>How far a rounded result is from the value: half a unit in the last place, which
  is at most the value over \<open>2 ^ p\<close>, or half the spacing of the subnormal numbers.\<close>

lemma round_ties_to_even_error: "\<bar>of_int (round_ties_to_even r) - r\<bar> \<le> 1 / 2"
proof -
  have lo: "of_int \<lfloor>r\<rfloor> \<le> r" by (rule of_int_floor_le)
  have hi: "r < of_int \<lfloor>r\<rfloor> + 1" by linarith
  show ?thesis
    using lo hi by (auto simp: round_ties_to_even_def Let_def)
qed

lemma round_to_format_error:
  "\<bar>round_to_format p emin v - v\<bar> \<le> \<bar>v\<bar> / 2 ^ p + 2 powi (emin - int p)"
proof (cases "v = 0")
  case True
  then show ?thesis by (simp add: round_to_format_zero)
next
  case False
  define e where "e = max emin \<lfloor>log 2 \<bar>v\<bar>\<rfloor>"
  define ulp :: real where "ulp = 2 powi (e - int p + 1)"
  have ulp_pos: "0 < ulp" by (simp add: ulp_def)
  have r: "round_to_format p emin v = of_int (round_ties_to_even (v / ulp)) * ulp"
    using False by (simp add: round_to_format_def Let_def e_def ulp_def)
  have "\<bar>round_to_format p emin v - v\<bar> = \<bar>of_int (round_ties_to_even (v / ulp)) - v / ulp\<bar> * ulp"
  proof -
    have "round_to_format p emin v - v = (of_int (round_ties_to_even (v / ulp)) - v / ulp) * ulp"
      using ulp_pos by (simp add: r field_simps)
    then show ?thesis using ulp_pos by (simp add: abs_mult)
  qed
  also have "\<dots> \<le> (1 / 2) * ulp"
    using round_ties_to_even_error [of "v / ulp"] ulp_pos by (intro mult_right_mono) simp_all
  also have "\<dots> = 2 powi (e - int p)"
  proof -
    have "(2::real) powi (e - int p + 1) = 2 powi (e - int p) * 2"
      by (simp add: power_int_add)
    then show ?thesis by (simp add: ulp_def)
  qed
  finally have half: "\<bar>round_to_format p emin v - v\<bar> \<le> 2 powi (e - int p)" .
  show ?thesis
  proof (cases "emin \<le> \<lfloor>log 2 \<bar>v\<bar>\<rfloor>")
    case True
    then have e: "e = \<lfloor>log 2 \<bar>v\<bar>\<rfloor>" by (simp add: e_def)
    from False have pos: "0 < \<bar>v\<bar>" by simp
    have "2 powr real_of_int e \<le> \<bar>v\<bar>"
      using floor_log_eq_powr_iff [of "\<bar>v\<bar>" 2 e] pos by (simp add: e)
    then have le: "2 powi e \<le> \<bar>v\<bar>" by (simp add: powr_real_of_int')
    have "(2::real) powi (e - int p) = 2 powi e / 2 ^ p"
      by (simp add: power_int_diff)
    also have "\<dots> \<le> \<bar>v\<bar> / 2 ^ p" using le by (simp add: divide_right_mono)
    finally have "(2::real) powi (e - int p) \<le> \<bar>v\<bar> / 2 ^ p" .
    moreover have "(0::real) \<le> 2 powi (emin - int p)" by simp
    ultimately show ?thesis using half by linarith
  next
    case False
    then have e: "e = emin" by (simp add: e_def)
    have "(0::real) \<le> \<bar>v\<bar> / 2 ^ p" by simp
    with half show ?thesis unfolding e by linarith
  qed
qed

lemma to_float_error: "\<bar>to_float v - v\<bar> \<le> \<bar>v\<bar> / 2 ^ 24 + 1 / 2 ^ 150"
proof -
  have "(2::real) powi (- 126 - int 24) = 1 / 2 ^ 150"
    by (simp add: power_int_minus field_simps)
  with round_to_format_error [of 24 "- 126" v] show ?thesis
    by (simp add: to_float_def)
qed

lemma to_float_of_nat: "n < 2 ^ 24 \<Longrightarrow> to_float (real n) = real n"
  using to_float_of_int [of "int n"] by simp

lemma convex_abs:
  fixes U L :: real
  assumes "0 \<le> c" and "c \<le> 1"
  shows "\<bar>U - c * (U - L)\<bar> \<le> \<bar>U\<bar> + \<bar>L\<bar>"
proof -
  have "U - c * (U - L) = (1 - c) * U + c * L" by (simp add: algebra_simps)
  then have "\<bar>U - c * (U - L)\<bar> \<le> \<bar>(1 - c) * U\<bar> + \<bar>c * L\<bar>" by (simp add: abs_triangle_ineq)
  also have "\<dots> = (1 - c) * \<bar>U\<bar> + c * \<bar>L\<bar>" using assms by (simp add: abs_mult)
  also have "\<dots> \<le> 1 * \<bar>U\<bar> + 1 * \<bar>L\<bar>"
    using assms by (intro add_mono mult_right_mono) simp_all
  finally show ?thesis by simp
qed

lemma rounding_chain:
  fixes e1 e3 e4 B M dd Dd T X Ut UL F n :: real
  assumes "e1 \<le> Dd / 2 ^ 24 + 1 / 2 ^ 150"
    and "e3 \<le> M / 2 ^ 24 + 1 / 2 ^ 150"
    and "e4 \<le> Ut / 2 ^ 24 + 1 / 2 ^ 150"
    and "B \<le> dd / 2 ^ 24 + n / 2 ^ 150"
    and "M \<le> dd + B" and "T \<le> e3 + B + e1"
    and "X \<le> UL" and "Dd \<le> UL" and "dd \<le> Dd + e1"
    and "Ut \<le> X + T" and "F \<le> e4 + T"
    and "1 \<le> n" and "0 \<le> Dd"
  shows "F \<le> UL / 2 ^ 20 + (n + 1) / 2 ^ 147"
proof -
  have a1: "e1 \<le> UL / 2 ^ 24 + 1 / 2 ^ 150"
    using assms(1,8) by (simp add: field_simps; linarith)
  have a2: "dd \<le> UL + UL / 2 ^ 24 + 1 / 2 ^ 150" using assms(9,8) a1 by linarith
  have a3: "B \<le> UL / 2 ^ 23 + n / 2 ^ 150 + 1 / 2 ^ 150"
    using assms(4,12,13,8) a2 by (simp add: field_simps; linarith)
  have a4: "M \<le> 2 * UL + n / 2 ^ 150 + 1 / 2 ^ 149"
    using assms(5,12,13,8) a2 a3 by (simp add: field_simps; linarith)
  have a5: "e3 \<le> UL / 2 ^ 23 + n / 2 ^ 150 + 1 / 2 ^ 149"
    using assms(2,12,13,8) a4 by (simp add: field_simps; linarith)
  have a6: "T \<le> UL / 2 ^ 21 + n / 2 ^ 149 + 1 / 2 ^ 147"
    using assms(6,12,13,8) a5 a3 a1 by (simp add: field_simps; linarith)
  have a7: "Ut \<le> 2 * UL + n / 2 ^ 149 + 1 / 2 ^ 147"
    using assms(10,7,12,13,8) a6 by (simp add: field_simps; linarith)
  have a8: "e4 \<le> UL / 2 ^ 23 + n / 2 ^ 150 + 1 / 2 ^ 149"
    using assms(3,12,13,8) a7 by (simp add: field_simps; linarith)
  show ?thesis
    using assms(11,12,13,8) a6 a8 by (simp add: field_simps; linarith)
qed

lemma table_entry_error:
  fixes U L :: real and n i :: nat
  assumes n: "1 \<le> n" and i: "i \<le> n"
  shows "\<bar>to_float (U - to_float (real i * to_float (to_float (U - L) / real n)))
          - (U - real i * (U - L) / real n)\<bar>
         \<le> (\<bar>U\<bar> + \<bar>L\<bar>) / 2 ^ 20 + real (n + 1) / 2 ^ 147"
proof -
  define D where "D = U - L"
  define d0 where "d0 = to_float D"
  define x where "x = d0 / real n"
  define delta where "delta = to_float x"
  define t where "t = to_float (real i * delta)"
  define a where "a = to_float (U - t)"
  define s where "s = D / real n"
  have npos: "0 < real n" using n by simp
  have ile: "real i \<le> real n" using i by simp
  have e1: "\<bar>d0 - D\<bar> \<le> \<bar>D\<bar> / 2 ^ 24 + 1 / 2 ^ 150"
    unfolding d0_def by (rule to_float_error)
  have e2: "\<bar>delta - x\<bar> \<le> \<bar>x\<bar> / 2 ^ 24 + 1 / 2 ^ 150"
    unfolding delta_def by (rule to_float_error)
  have e3: "\<bar>t - real i * delta\<bar> \<le> \<bar>real i * delta\<bar> / 2 ^ 24 + 1 / 2 ^ 150"
    unfolding t_def by (rule to_float_error)
  have e4: "\<bar>a - (U - t)\<bar> \<le> \<bar>U - t\<bar> / 2 ^ 24 + 1 / 2 ^ 150"
    unfolding a_def by (rule to_float_error)
  have nx: "real n * \<bar>x\<bar> = \<bar>d0\<bar>"
    using npos by (simp add: x_def abs_divide)
  define B where "B = real n * \<bar>delta - x\<bar>"
  have B: "B \<le> \<bar>d0\<bar> / 2 ^ 24 + real n / 2 ^ 150"
  proof -
    have "B \<le> real n * (\<bar>x\<bar> / 2 ^ 24 + 1 / 2 ^ 150)"
      unfolding B_def using e2 npos by (intro mult_left_mono) simp_all
    also have "\<dots> = (real n * \<bar>x\<bar>) / 2 ^ 24 + real n / 2 ^ 150"
      by (simp add: algebra_simps)
    finally show ?thesis by (simp add: nx)
  qed
  have C: "real i * \<bar>delta - x\<bar> \<le> B"
    unfolding B_def using ile by (intro mult_right_mono) simp_all
  have Q: "real i * \<bar>x\<bar> \<le> \<bar>d0\<bar>"
  proof -
    have "real i * \<bar>x\<bar> \<le> real n * \<bar>x\<bar>" using ile by (intro mult_right_mono) simp_all
    then show ?thesis by (simp add: nx)
  qed
  have idelta: "\<bar>real i * delta\<bar> \<le> \<bar>d0\<bar> + B"
  proof -
    have "\<bar>delta\<bar> \<le> \<bar>x\<bar> + \<bar>delta - x\<bar>" by linarith
    then have "real i * \<bar>delta\<bar> \<le> real i * (\<bar>x\<bar> + \<bar>delta - x\<bar>)"
      by (intro mult_left_mono) simp_all
    also have "\<dots> = real i * \<bar>x\<bar> + real i * \<bar>delta - x\<bar>" by (simp add: algebra_simps)
    also have "\<dots> \<le> \<bar>d0\<bar> + B" using Q C by linarith
    finally show ?thesis by (simp add: abs_mult)
  qed
  have xs: "x - s = (d0 - D) / real n"
    by (simp add: x_def s_def diff_divide_distrib)
  have R: "real i * \<bar>x - s\<bar> \<le> \<bar>d0 - D\<bar>"
  proof -
    have "real i * \<bar>x - s\<bar> \<le> real n * \<bar>x - s\<bar>" using ile by (intro mult_right_mono) simp_all
    also have "\<dots> = \<bar>d0 - D\<bar>" using npos by (simp add: xs abs_divide)
    finally show ?thesis .
  qed
  have ts: "\<bar>t - real i * s\<bar> \<le> \<bar>t - real i * delta\<bar> + B + \<bar>d0 - D\<bar>"
  proof -
    have "t - real i * s = (t - real i * delta) + real i * (delta - x) + real i * (x - s)"
      by (simp add: algebra_simps)
    then have "\<bar>t - real i * s\<bar>
        \<le> \<bar>t - real i * delta\<bar> + \<bar>real i * (delta - x)\<bar> + \<bar>real i * (x - s)\<bar>"
      by linarith
    also have "\<dots> = \<bar>t - real i * delta\<bar> + real i * \<bar>delta - x\<bar> + real i * \<bar>x - s\<bar>"
      by (simp add: abs_mult)
    also have "\<dots> \<le> \<bar>t - real i * delta\<bar> + B + \<bar>d0 - D\<bar>" using C R by linarith
    finally show ?thesis .
  qed
  have exact: "\<bar>U - real i * s\<bar> \<le> \<bar>U\<bar> + \<bar>L\<bar>"
  proof -
    have "real i * s = (real i / real n) * (U - L)" by (simp add: s_def D_def)
    moreover have "0 \<le> real i / real n" by simp
    moreover have "real i / real n \<le> 1" using ile npos by simp
    ultimately show ?thesis using convex_abs [of "real i / real n" U L] by simp
  qed
  have Dle: "\<bar>D\<bar> \<le> \<bar>U\<bar> + \<bar>L\<bar>" unfolding D_def by linarith
  have d0le: "\<bar>d0\<bar> \<le> \<bar>D\<bar> + \<bar>d0 - D\<bar>" by linarith
  have Ut: "\<bar>U - t\<bar> \<le> \<bar>U - real i * s\<bar> + \<bar>t - real i * s\<bar>" by linarith
  have fin: "\<bar>a - (U - real i * s)\<bar> \<le> \<bar>a - (U - t)\<bar> + \<bar>t - real i * s\<bar>" by linarith
  have n1: "real (n + 1) = real n + 1" by simp
  have "\<bar>a - (U - real i * s)\<bar> \<le> (\<bar>U\<bar> + \<bar>L\<bar>) / 2 ^ 20 + (real n + 1) / 2 ^ 147"
    using n by (intro rounding_chain [OF e1 e3 e4 B idelta ts exact Dle d0le Ut fin]) simp_all
  then have "\<bar>a - (U - real i * s)\<bar> \<le> (\<bar>U\<bar> + \<bar>L\<bar>) / 2 ^ 20 + real (n + 1) / 2 ^ 147"
    unfolding n1 .
  then show ?thesis
    by (simp add: a_def t_def delta_def x_def d0_def D_def s_def)
qed

lemma to_float_abs_le: "\<bar>to_float v\<bar> \<le> 2 * \<bar>v\<bar> + 1"
proof -
  have "\<bar>v\<bar> / 2 ^ 24 \<le> \<bar>v\<bar>" by (simp add: field_simps)
  moreover have "(1::real) / 2 ^ 150 \<le> 1" by simp
  ultimately show ?thesis using to_float_error [of v] by linarith
qed

subsection \<open>One ray, and the two loops\<close>

lemma unrotate_to_pose_Some:
  "unrotate_to_pose h (Some ar) (Some pr) d =
     Inr (Vector3r (fX (UnrotateVector h pr (UnrotateVector h ar d)))
                   (fY (UnrotateVector h pr (UnrotateVector h ar d)))
                   (fZ (UnrotateVector h pr (UnrotateVector h ar d))))"
  by (simp add: unrotate_to_pose_def Let_def)

lemma unrotate_to_pose_None: "unrotate_to_pose h None pr d = Inl UninitialisedRead"
  by (simp add: unrotate_to_pose_def)

lemma shootLaser_returns_true:
  "shootLaser h s lidar_pose vehicle_pose start laser angle p = Inr (hit, pt, evs) \<Longrightarrow> hit"
  by (auto simp: shootLaser_def Let_def split: if_splits option.splits sum.splits prod.splits)

lemma shootLaser_direct_total:
  assumes "ned_transform_m s = None" and "laser < length (laser_angles_m s)"
  shows "\<exists>pt evs. shootLaser h s lidar_pose vehicle_pose start laser angle p = Inr (True, pt, evs)"
  using assms
  by (simp add: shootLaser_def Let_def unrotate_to_pose_Some split: option.splits)

lemma shootLaser_out_of_range:
  "\<not> laser < length (laser_angles_m s) \<Longrightarrow>
   shootLaser h s lidar_pose vehicle_pose start laser angle p = Inl IndexOutOfRange"
  by (simp add: shootLaser_def)

lemma shootLaser_debug_irrelevant:
  "strip_events (shootLaser h (s\<lparr>draw_debug_points_m := b\<rparr>) lidar_pose vehicle_pose start laser angle p)
   = strip_events (shootLaser h s lidar_pose vehicle_pose start laser angle p)"
  by (simp add: shootLaser_def Let_def strip_events_def split: option.splits sum.splits prod.splits)

lemma sample_loop_Inr:
  "sample_loop shoot laser samples acc = Inr acc' \<Longrightarrow>
   fst acc' = fst acc @ concat (map (\<lambda>i. sample_coords (shoot laser i)) samples) \<and>
   snd acc' = snd acc @ concat (map (\<lambda>i. sample_events (shoot laser i)) samples)"
proof (induction samples arbitrary: acc)
  case Nil
  then show ?case by simp
next
  case (Cons i rest)
  show ?case
  proof (cases "shoot laser i")
    case (Inl e)
    with Cons.prems show ?thesis by simp
  next
    case (Inr res)
    obtain hit pt evs where res: "res = (hit, pt, evs)" by (cases res) auto
    from Cons.prems Inr res
    have "sample_loop shoot laser rest
            (if hit then fst acc @ [vx pt, vy pt, vz pt] else fst acc, snd acc @ evs) = Inr acc'"
      by simp
    from Cons.IH [OF this] Inr res show ?thesis
      by (simp add: sample_coords_def sample_events_def)
  qed
qed

lemma laser_loop_Inr:
  "laser_loop shoot n lasers acc = Inr acc' \<Longrightarrow>
   fst acc' = fst acc @ concat (map (\<lambda>li. sample_coords (shoot (fst li) (snd li)))
                                 (concat (map (\<lambda>laser. map (\<lambda>i. (laser, i)) [0..<n]) lasers))) \<and>
   snd acc' = snd acc @ concat (map (\<lambda>li. sample_events (shoot (fst li) (snd li)))
                                 (concat (map (\<lambda>laser. map (\<lambda>i. (laser, i)) [0..<n]) lasers)))"
proof (induction lasers arbitrary: acc)
  case Nil
  then show ?case by simp
next
  case (Cons laser rest)
  show ?case
  proof (cases "sample_loop shoot laser [0..<n] acc")
    case (Inl e)
    with Cons.prems show ?thesis by simp
  next
    case (Inr mid)
    with Cons.prems have "laser_loop shoot n rest mid = Inr acc'" by simp
    from Cons.IH [OF this] sample_loop_Inr [OF Inr] show ?thesis
      by (simp add: map_concat comp_def)
  qed
qed

lemma sample_loop_total:
  assumes "\<And>i. i \<in> set samples \<Longrightarrow> \<exists>pt evs. shoot laser i = Inr (True, pt, evs)"
  shows "\<exists>acc'. sample_loop shoot laser samples acc = Inr acc' \<and>
                length (fst acc') = length (fst acc) + 3 * length samples"
  using assms
proof (induction samples arbitrary: acc)
  case Nil
  then show ?case by simp
next
  case (Cons i rest)
  from Cons.prems [of i] obtain pt evs where sh: "shoot laser i = Inr (True, pt, evs)" by auto
  have "\<exists>acc'. sample_loop shoot laser rest (fst acc @ [vx pt, vy pt, vz pt], snd acc @ evs) = Inr acc' \<and>
          length (fst acc') = length (fst (fst acc @ [vx pt, vy pt, vz pt], snd acc @ evs)) + 3 * length rest"
    by (rule Cons.IH) (simp add: Cons.prems)
  with sh show ?case by auto
qed

lemma laser_loop_total:
  assumes "\<And>laser i. laser \<in> set lasers \<Longrightarrow> i < n \<Longrightarrow> \<exists>pt evs. shoot laser i = Inr (True, pt, evs)"
  shows "\<exists>acc'. laser_loop shoot n lasers acc = Inr acc' \<and>
                length (fst acc') = length (fst acc) + 3 * (length lasers * n)"
  using assms
proof (induction lasers arbitrary: acc)
  case Nil
  then show ?case by simp
next
  case (Cons laser rest)
  have "\<exists>mid. sample_loop shoot laser [0..<n] acc = Inr mid \<and>
          length (fst mid) = length (fst acc) + 3 * length [0..<n]"
    by (rule sample_loop_total) (simp add: Cons.prems)
  then obtain mid where mid: "sample_loop shoot laser [0..<n] acc = Inr mid"
    and len: "length (fst mid) = length (fst acc) + 3 * n" by auto
  have "\<exists>acc'. laser_loop shoot n rest mid = Inr acc' \<and>
          length (fst acc') = length (fst mid) + 3 * (length rest * n)"
    by (rule Cons.IH) (simp add: Cons.prems)
  with mid len show ?case by (auto simp: algebra_simps)
qed

lemma sample_loop_cong:
  assumes "\<And>i. strip_events (sh1 laser i) = strip_events (sh2 laser i)"
  shows "map_sum id fst (sample_loop sh1 laser samples (c, e1))
       = map_sum id fst (sample_loop sh2 laser samples (c, e2))"
proof (induction samples arbitrary: c e1 e2)
  case Nil
  then show ?case by simp
next
  case (Cons i rest)
  from assms [of i] Cons.IH show ?case
    by (auto simp: strip_events_def split: sum.splits prod.splits)
qed

lemma laser_loop_cong:
  assumes "\<And>laser i. strip_events (sh1 laser i) = strip_events (sh2 laser i)"
  shows "map_sum id fst (laser_loop sh1 n lasers (c, e1))
       = map_sum id fst (laser_loop sh2 n lasers (c, e2))"
proof (induction lasers arbitrary: c e1 e2)
  case Nil
  then show ?case by simp
next
  case (Cons laser rest)
  have step: "map_sum id fst (sample_loop sh1 laser [0..<n] (c, e1))
            = map_sum id fst (sample_loop sh2 laser [0..<n] (c, e2))"
    by (rule sample_loop_cong) (rule assms)
  show ?case
  proof (cases "sample_loop sh1 laser [0..<n] (c, e1)")
    case (Inl e)
    with step show ?thesis by (cases "sample_loop sh2 laser [0..<n] (c, e2)") auto
  next
    case (Inr m1)
    with step obtain m2 where m2: "sample_loop sh2 laser [0..<n] (c, e2) = Inr m2"
      and eq: "fst m1 = fst m2"
      by (cases "sample_loop sh2 laser [0..<n] (c, e2)") auto
    from Cons.IH [of "fst m1" "snd m1" "snd m2"] Inr m2 eq show ?thesis
      by (cases m1; cases m2) simp
  qed
qed

subsection \<open>The table of vertical angles\<close>

text \<open>Fourteen channels between 7 and -7 degrees, operation by operation: the step
  14 / 13 is rounded to 4516943 / 2 ^ 22, and entry \<open>i\<close> is the rounded difference of 7 and
  the rounded product of \<open>i\<close> and that step.\<close>

lemma fourteen_params:
  "number_of_channels fourteen_channels = 14"
  "vertical_FOV_upper fourteen_channels = 7"
  "vertical_FOV_lower fourteen_channels = - 7"
  by (simp_all add: fourteen_channels_def bench_params_def)

lemma fourteen_delta: "to_float (14 / 13) = 4516943 / 4194304"
  by (rule to_float_evalI [where e = 0 and m = 9033886]) simp_all

lemma fourteen_entry:
  "i < 14 \<Longrightarrow>
   createLasers fourteen_channels [] ! i
     = to_float (7 - to_float (to_float (real i) * (4516943 / 4194304)))"
  by (simp add: createLasers_def Let_def fourteen_params fourteen_delta)

lemma fourteen_first: "createLasers fourteen_channels [] ! 0 = 7"
  using fourteen_entry [of 0] by simp

lemma fourteen_second: "createLasers fourteen_channels [] ! 1 = 1552699 / 262144"
proof -
  have t: "to_float (to_float (real 1) * (4516943 / 4194304)) = 4516943 / 4194304"
    by (rule to_float_evalI [where e = 0 and m = 9033886]) simp_all
  have a: "to_float (7 - 4516943 / 4194304) = 1552699 / 262144"
    by (rule to_float_evalI [where e = 2 and m = 12421592]) simp_all
  have "createLasers fourteen_channels [] ! 1
          = to_float (7 - to_float (to_float (real 1) * (4516943 / 4194304)))"
    by (rule fourteen_entry) simp
  then show ?thesis unfolding t a .
qed

lemma fourteen_third: "createLasers fourteen_channels [] ! 2 = 10163121 / 2097152"
proof -
  have t: "to_float (to_float (real 2) * (4516943 / 4194304)) = 4516943 / 2097152"
    by (rule to_float_evalI [where e = 1 and m = 9033886]) simp_all
  have a: "to_float (7 - 4516943 / 2097152) = 10163121 / 2097152"
    by (rule to_float_evalI [where e = 2 and m = 10163121]) simp_all
  have "createLasers fourteen_channels [] ! 2
          = to_float (7 - to_float (to_float (real 2) * (4516943 / 4194304)))"
    by (rule fourteen_entry) simp
  then show ?thesis unfolding t a .
qed

lemma fourteen_last: "createLasers fourteen_channels [] ! 13 = - (7340033 / 1048576)"
proof -
  have t: "to_float (to_float (real 13) * (4516943 / 4194304)) = 14680065 / 1048576"
    by (rule to_float_evalI [where e = 3 and m = 14680065]) simp_all
  have a: "to_float (7 - 14680065 / 1048576) = - (7340033 / 1048576)"
    by (rule to_float_evalI [where e = 2 and m = "- 14680066"]) simp_all
  have "createLasers fourteen_channels [] ! 13
          = to_float (7 - to_float (to_float (real 13) * (4516943 / 4194304)))"
    by (rule fourteen_entry) simp
  then show ?thesis unfolding t a .
qed

text \<open>The entries in general: what the code computes, and how far that is from the exact
  value of the formula when the channel counts convert to \<^verbatim>\<open>float\<close> without rounding.\<close>

lemma createLasers_entry:
  "2 \<le> number_of_channels p \<Longrightarrow> i < number_of_channels p \<Longrightarrow>
   createLasers p [] ! i =
     to_float (vertical_FOV_upper p
               - to_float (to_float (real i)
                           * to_float (to_float (vertical_FOV_upper p - vertical_FOV_lower p)
                                       / to_float (real (number_of_channels p - 1)))))"
  by (simp add: createLasers_def Let_def)

lemma createLasers_entry_error:
  assumes n: "2 \<le> number_of_channels p" and b: "number_of_channels p \<le> 2 ^ 24"
    and i: "i < number_of_channels p"
  shows "\<bar>createLasers p [] ! i
          - (vertical_FOV_upper p
             - real i * (vertical_FOV_upper p - vertical_FOV_lower p)
               / real (number_of_channels p - 1))\<bar>
         \<le> createLasers_tolerance p"
proof -
  define N where "N = number_of_channels p"
  have fi: "to_float (real i) = real i"
    using i b by (intro to_float_of_nat) simp
  have fn: "to_float (real (N - 1)) = real (N - 1)"
    using n b by (intro to_float_of_nat) (simp add: N_def)
  have N1: "real (N - 1 + 1) = real N" using n by (simp add: N_def)
  have "1 \<le> N - 1" and "i \<le> N - 1" using n i by (simp_all add: N_def)
  from table_entry_error [OF this, of "vertical_FOV_upper p" "vertical_FOV_lower p"]
  show ?thesis
    unfolding createLasers_entry [OF n i] createLasers_tolerance_def N_def [symmetric] fi fn N1 .
qed

text \<open>No operation overflows when the bounds are binary32 numbers of magnitude up to
  \<open>2 ^ 64\<close> and there are at most \<open>2 ^ 24\<close> channels.\<close>

lemma doubled_bound:
  fixes a v c :: real
  assumes "a \<le> 2 * v + 1" and "v \<le> c"
  shows "a \<le> 2 * c + 1"
  using assms by linarith

lemma createLasers_in_rangeI:
  assumes U: "to_float (vertical_FOV_upper p) = vertical_FOV_upper p"
    and L: "to_float (vertical_FOV_lower p) = vertical_FOV_lower p"
    and Ub: "\<bar>vertical_FOV_upper p\<bar> \<le> 2 ^ 64" and Lb: "\<bar>vertical_FOV_lower p\<bar> \<le> 2 ^ 64"
    and n: "2 \<le> number_of_channels p" and b: "number_of_channels p \<le> 2 ^ 24"
  shows "createLasers_in_range p"
proof -
  define N where "N = number_of_channels p"
  define Up where "Up = vertical_FOV_upper p"
  define Lo where "Lo = vertical_FOV_lower p"
  define D where "D = to_float (Up - Lo)"
  define delta where "delta = to_float (D / to_float (real (N - 1)))"
  have fn: "to_float (real (N - 1)) = real (N - 1)"
    using n b by (intro to_float_of_nat) (simp add: N_def)
  have n1: "1 \<le> real (N - 1)" using n by (simp add: N_def)
  have Ub': "\<bar>Up\<bar> \<le> 2 ^ 64" and Lb': "\<bar>Lo\<bar> \<le> 2 ^ 64"
    using Ub Lb by (simp_all add: Up_def Lo_def)
  have "\<bar>Up - Lo\<bar> \<le> \<bar>Up\<bar> + \<bar>Lo\<bar>" by (rule abs_triangle_ineq4)
  also have "\<dots> \<le> 2 ^ 64 + 2 ^ 64" using Ub' Lb' by (rule add_mono)
  finally have "\<bar>Up - Lo\<bar> \<le> 2 ^ 65" by simp
  then have "\<bar>D\<bar> \<le> 2 * 2 ^ 65 + 1"
    unfolding D_def by (rule doubled_bound [OF to_float_abs_le])
  then have Dle: "\<bar>D\<bar> \<le> 2 ^ 66 + 1" by simp
  have "\<bar>D / real (N - 1)\<bar> \<le> \<bar>D\<bar> / 1"
    unfolding abs_divide using n1 by (intro divide_left_mono) simp_all
  also have "\<dots> \<le> 2 ^ 66 + 1" using Dle by simp
  finally have "\<bar>delta\<bar> \<le> 2 * (2 ^ 66 + 1) + 1"
    unfolding delta_def fn by (rule doubled_bound [OF to_float_abs_le])
  also have "\<dots> \<le> 2 ^ 68" by simp
  finally have dle: "\<bar>delta\<bar> \<le> 2 ^ 68" .
  have entry: "float_finite (to_float (to_float (real i) * delta)) \<and>
               float_finite (to_float (Up - to_float (to_float (real i) * delta)))"
    if i: "i < N" for i
  proof -
    define t where "t = to_float (real i * delta)"
    define a where "a = to_float (Up - t)"
    have fi: "to_float (real i) = real i"
      using i b by (intro to_float_of_nat) (simp add: N_def)
    have "real i \<le> real ((2::nat) ^ 24)"
      using i b unfolding N_def by (intro of_nat_mono) simp
    then have ile: "real i \<le> 2 ^ 24" by simp
    have "\<bar>real i * delta\<bar> = real i * \<bar>delta\<bar>" by (simp add: abs_mult)
    also have "\<dots> \<le> 2 ^ 24 * 2 ^ 68" using ile dle by (intro mult_mono) simp_all
    also have "\<dots> = 2 ^ 92" by simp
    finally have "\<bar>t\<bar> \<le> 2 * 2 ^ 92 + 1"
      unfolding t_def by (rule doubled_bound [OF to_float_abs_le])
    also have "\<dots> \<le> 2 ^ 94" by simp
    finally have tle: "\<bar>t\<bar> \<le> 2 ^ 94" .
    have "\<bar>Up - t\<bar> \<le> \<bar>Up\<bar> + \<bar>t\<bar>" by (rule abs_triangle_ineq4)
    also have "\<dots> \<le> 2 ^ 64 + 2 ^ 94" using Ub' tle by (rule add_mono)
    finally have "\<bar>a\<bar> \<le> 2 * (2 ^ 64 + 2 ^ 94) + 1"
      unfolding a_def by (rule doubled_bound [OF to_float_abs_le])
    also have "\<dots> < 2 ^ 128" by simp
    finally have ale: "\<bar>a\<bar> < 2 ^ 128" .
    have "\<bar>t\<bar> < 2 ^ 128" using tle by (rule le_less_trans) simp
    with ale show ?thesis unfolding fi float_finite_def t_def a_def by simp
  qed
  have "\<bar>Up\<bar> < 2 ^ 128" using Ub' by (rule le_less_trans) simp
  moreover have "\<bar>Lo\<bar> < 2 ^ 128" using Lb' by (rule le_less_trans) simp
  moreover have "\<bar>D\<bar> < 2 ^ 128" using Dle by (rule le_less_trans) simp
  moreover have "\<bar>delta\<bar> < 2 ^ 128" using dle by (rule le_less_trans) simp
  ultimately have "float_finite Up" "float_finite Lo" "float_finite D" "float_finite delta"
    unfolding float_finite_def by simp_all
  with entry U L show ?thesis
    unfolding createLasers_in_range_def Let_def
    by (simp add: N_def Up_def Lo_def D_def delta_def)
qed

lemma fourteen_in_range: "createLasers_in_range fourteen_channels"
  by (rule createLasers_in_rangeI) (simp_all add: fourteen_params)

lemma fourteen_tolerance: "createLasers_tolerance fourteen_channels = 14 / 2 ^ 20 + 14 / 2 ^ 147"
  by (simp add: createLasers_tolerance_def fourteen_params)

text \<open>Four channels between 15 and -15 degrees: the step is 10 and nothing rounds.\<close>

lemma bench_table: "createLasers bench_params [] = [15, 5, - 5, - 15]"
  by (simp add: bench_params_def createLasers_def upt_rec)

lemma less_four: "(\<forall>i < (4::nat). P i) \<longleftrightarrow> P 0 \<and> P 1 \<and> P 2 \<and> P 3"
proof -
  have "i < 4 \<longleftrightarrow> i = 0 \<or> i = 1 \<or> i = 2 \<or> i = 3" for i :: nat by auto
  then show ?thesis by auto
qed

lemma bench_in_range: "createLasers_in_range bench_params"
  by (simp add: createLasers_in_range_def Let_def bench_params_def float_finite_def less_four)

lemma bench_exact: "createLasers_exact bench_params"
  by (simp add: createLasers_exact_def Let_def bench_params_def less_four)

text \<open>
  Claim C2, as stated, at 14 channels between 7 and -7 degrees: the step 14 / 13 is not
  a binary32 number, the last entry of the table is -7.00000095 (the lower bound less
  \<open>1 / 2 ^ 20\<close>) and not the lower bound, and the first two differences of consecutive
  entries are not equal.
\<close>

theorem createLasers_rounding_counterexample:
  "number_of_channels fourteen_channels = 14 \<and>
   vertical_FOV_upper fourteen_channels = 7 \<and>
   vertical_FOV_lower fourteen_channels = - 7 \<and>
   createLasers fourteen_channels [] ! (number_of_channels fourteen_channels - 1)
     = - 7 - 1 / 2 ^ 20 \<and>
   createLasers fourteen_channels [] ! (number_of_channels fourteen_channels - 1)
     \<noteq> vertical_FOV_lower fourteen_channels \<and>
   createLasers fourteen_channels [] ! 1 - createLasers fourteen_channels [] ! 0
     \<noteq> createLasers fourteen_channels [] ! 2 - createLasers fourteen_channels [] ! 1"
proof -
  have idx: "number_of_channels fourteen_channels - 1 = 13"
    unfolding fourteen_params by simp
  have last: "createLasers fourteen_channels [] ! (number_of_channels fourteen_channels - 1)
                = - 7 - 1 / 2 ^ 20"
    unfolding idx fourteen_last by simp
  have ne: "createLasers fourteen_channels [] ! (number_of_channels fourteen_channels - 1)
              \<noteq> vertical_FOV_lower fourteen_channels"
    unfolding last fourteen_params(3) by simp
  have diff: "createLasers fourteen_channels [] ! 1 - createLasers fourteen_channels [] ! 0
     \<noteq> createLasers fourteen_channels [] ! 2 - createLasers fourteen_channels [] ! 1"
    unfolding fourteen_first fourteen_second fourteen_third by simp
  from fourteen_params last ne diff show ?thesis by blast
qed

text \<open>
  Claim C2, amended. \<^verbatim>\<open>createLasers\<close>, called on the empty table as the constructor
  calls it, returns the empty table for 0 channels and the table \<open>[0]\<close> for one channel.
  For \<open>N\<close> channels, \<open>N\<close> at least 2, with binary32 bounds and no overflow, it returns a
  table of length \<open>N\<close> whose entry \<open>i\<close> is \<open>fovUpper - i * (fovUpper - fovLower) / (N - 1)\<close>
  evaluated in single precision, every operation rounded to nearest; the first entry is
  the upper bound exactly. For \<open>N\<close> up to \<open>2 ^ 24\<close> every entry is within
  \<open>(\<bar>fovUpper\<bar> + \<bar>fovLower\<bar>) / 2 ^ 20 + N / 2 ^ 147\<close> of the exact value of the formula, so
  the last entry is within that distance of the lower bound and every difference of
  consecutive entries within twice that distance of \<open>(fovLower - fovUpper) / (N - 1)\<close>.
  When no operation rounds, the entries are the exact values, the last entry is the
  lower bound and all differences of consecutive entries are equal.
\<close>

theorem createLasers_single_precision:
  "(number_of_channels p = 0 \<longrightarrow> createLasers p [] = []) \<and>
   (number_of_channels p = 1 \<longrightarrow> createLasers p [] = [0]) \<and>
   (2 \<le> number_of_channels p \<longrightarrow> createLasers_in_range p \<longrightarrow>
      length (createLasers p []) = number_of_channels p \<and>
      (\<forall>i < number_of_channels p.
         createLasers p [] ! i =
           to_float (vertical_FOV_upper p
                     - to_float (to_float (real i)
                                 * to_float (to_float (vertical_FOV_upper p - vertical_FOV_lower p)
                                             / to_float (real (number_of_channels p - 1)))))) \<and>
      createLasers p [] ! 0 = vertical_FOV_upper p \<and>
      (number_of_channels p \<le> 2 ^ 24 \<longrightarrow>
         (\<forall>i < number_of_channels p.
            \<bar>createLasers p [] ! i
              - (vertical_FOV_upper p
                 - real i * (vertical_FOV_upper p - vertical_FOV_lower p)
                   / real (number_of_channels p - 1))\<bar>
            \<le> createLasers_tolerance p) \<and>
         \<bar>createLasers p [] ! (number_of_channels p - 1) - vertical_FOV_lower p\<bar>
           \<le> createLasers_tolerance p \<and>
         (\<forall>i. Suc i < number_of_channels p \<longrightarrow>
            \<bar>createLasers p [] ! Suc i - createLasers p [] ! i
              - (vertical_FOV_lower p - vertical_FOV_upper p) / real (number_of_channels p - 1)\<bar>
            \<le> 2 * createLasers_tolerance p)) \<and>
      (createLasers_exact p \<longrightarrow>
         (\<forall>i < number_of_channels p.
            createLasers p [] ! i =
              vertical_FOV_upper p
              - real i * (vertical_FOV_upper p - vertical_FOV_lower p)
                / real (number_of_channels p - 1)) \<and>
         createLasers p [] ! (number_of_channels p - 1) = vertical_FOV_lower p \<and>
         (\<forall>i. Suc i < number_of_channels p \<longrightarrow>
            createLasers p [] ! Suc i - createLasers p [] ! i =
              (vertical_FOV_lower p - vertical_FOV_upper p) / real (number_of_channels p - 1))))"
proof (intro conjI impI)
  assume "number_of_channels p = 0"
  then show "createLasers p [] = []" by (simp add: createLasers_def)
next
  assume "number_of_channels p = 1"
  then show "createLasers p [] = [0]" by (simp add: createLasers_def)
next
  assume n: "2 \<le> number_of_channels p"
  then show "length (createLasers p []) = number_of_channels p"
    by (simp add: createLasers_def Let_def)
next
  assume n: "2 \<le> number_of_channels p"
  then show "\<forall>i < number_of_channels p.
         createLasers p [] ! i =
           to_float (vertical_FOV_upper p
                     - to_float (to_float (real i)
                                 * to_float (to_float (vertical_FOV_upper p - vertical_FOV_lower p)
                                             / to_float (real (number_of_channels p - 1)))))"
    by (simp add: createLasers_def Let_def)
next
  assume n: "2 \<le> number_of_channels p" and r: "createLasers_in_range p"
  from r have "to_float (vertical_FOV_upper p) = vertical_FOV_upper p"
    by (simp add: createLasers_in_range_def Let_def)
  with n show "createLasers p [] ! 0 = vertical_FOV_upper p"
    by (simp add: createLasers_def Let_def)
next
  assume n: "2 \<le> number_of_channels p" and b: "number_of_channels p \<le> 2 ^ 24"
  define N where "N = number_of_channels p"
  define U where "U = vertical_FOV_upper p"
  define L where "L = vertical_FOV_lower p"
  define tol where "tol = createLasers_tolerance p"
  define ex where "ex = (\<lambda>i. U - real i * (U - L) / real (N - 1))"
  have err: "\<bar>createLasers p [] ! i - ex i\<bar> \<le> tol" if "i < N" for i
    using createLasers_entry_error [OF n b, of i] that
    by (simp add: N_def U_def L_def tol_def ex_def)
  have pos: "real (N - 1) \<noteq> 0" using n by (simp add: N_def)
  have exlast: "ex (N - 1) = L" using pos by (simp add: ex_def)
  have exstep: "ex (Suc i) - ex i = (L - U) / real (N - 1)" for i
    by (simp add: ex_def algebra_simps add_divide_distrib [symmetric]
          diff_divide_distrib [symmetric])
  show "\<forall>i < number_of_channels p.
            \<bar>createLasers p [] ! i
              - (vertical_FOV_upper p
                 - real i * (vertical_FOV_upper p - vertical_FOV_lower p)
                   / real (number_of_channels p - 1))\<bar>
            \<le> createLasers_tolerance p"
    using err by (simp add: N_def U_def L_def tol_def ex_def)
  have "\<bar>createLasers p [] ! (N - 1) - ex (N - 1)\<bar> \<le> tol"
    using n by (intro err) (simp add: N_def)
  then show "\<bar>createLasers p [] ! (number_of_channels p - 1) - vertical_FOV_lower p\<bar>
           \<le> createLasers_tolerance p"
    unfolding exlast by (simp add: N_def L_def tol_def)
  show "\<forall>i. Suc i < number_of_channels p \<longrightarrow>
            \<bar>createLasers p [] ! Suc i - createLasers p [] ! i
              - (vertical_FOV_lower p - vertical_FOV_upper p) / real (number_of_channels p - 1)\<bar>
            \<le> 2 * createLasers_tolerance p"
  proof (intro allI impI)
    fix i assume i: "Suc i < number_of_channels p"
    then have e1: "\<bar>createLasers p [] ! Suc i - ex (Suc i)\<bar> \<le> tol"
      and e0: "\<bar>createLasers p [] ! i - ex i\<bar> \<le> tol"
      by (simp_all add: err N_def)
    have "\<bar>createLasers p [] ! Suc i - createLasers p [] ! i - (ex (Suc i) - ex i)\<bar> \<le> 2 * tol"
      using e1 e0 by linarith
    then show "\<bar>createLasers p [] ! Suc i - createLasers p [] ! i
              - (vertical_FOV_lower p - vertical_FOV_upper p) / real (number_of_channels p - 1)\<bar>
            \<le> 2 * createLasers_tolerance p"
      unfolding exstep by (simp add: N_def L_def U_def tol_def)
  qed
next
  assume n: "2 \<le> number_of_channels p" and x: "createLasers_exact p"
  define N where "N = number_of_channels p"
  define U where "U = vertical_FOV_upper p"
  define L where "L = vertical_FOV_lower p"
  define step where "step = (U - L) / real (N - 1)"
  from x have x1: "to_float (U - L) = U - L" and x2: "to_float (real (N - 1)) = real (N - 1)"
    and x3: "to_float step = step"
    and xi: "\<And>i. i < N \<Longrightarrow> to_float (real i) = real i \<and>
                 to_float (real i * step) = real i * step \<and>
                 to_float (U - real i * step) = U - real i * step"
    by (simp_all add: createLasers_exact_def Let_def N_def U_def L_def step_def)
  have delta: "to_float (to_float (U - L) / to_float (real (N - 1))) = step"
    unfolding x1 x2 using x3 by (simp add: step_def)
  have entry: "createLasers p [] ! i = U - real i * step" if "i < N" for i
  proof -
    from that n have "createLasers p [] ! i
        = to_float (U - to_float (to_float (real i)
                                  * to_float (to_float (U - L) / to_float (real (N - 1)))))"
      by (simp add: createLasers_def Let_def N_def U_def L_def)
    also have "\<dots> = U - real i * step"
      unfolding delta using xi [OF that] by simp
    finally show ?thesis .
  qed
  have pos: "real (N - 1) \<noteq> 0" using n by (simp add: N_def)
  show "\<forall>i < number_of_channels p.
            createLasers p [] ! i =
              vertical_FOV_upper p
              - real i * (vertical_FOV_upper p - vertical_FOV_lower p)
                / real (number_of_channels p - 1)"
    using entry by (simp add: N_def U_def L_def step_def)
  have "createLasers p [] ! (N - 1) = U - real (N - 1) * step"
    using n by (intro entry) (simp add: N_def)
  also have "\<dots> = L" using pos by (simp add: step_def)
  finally show "createLasers p [] ! (number_of_channels p - 1) = vertical_FOV_lower p"
    by (simp add: N_def L_def)
  show "\<forall>i. Suc i < number_of_channels p \<longrightarrow>
            createLasers p [] ! Suc i - createLasers p [] ! i =
              (vertical_FOV_lower p - vertical_FOV_upper p) / real (number_of_channels p - 1)"
  proof (intro allI impI)
    fix i assume i: "Suc i < number_of_channels p"
    then have "createLasers p [] ! Suc i - createLasers p [] ! i =
        (U - real (Suc i) * step) - (U - real i * step)"
      by (simp add: entry N_def)
    also have "\<dots> = (L - U) / real (N - 1)"
      by (simp add: step_def algebra_simps add_divide_distrib [symmetric]
            diff_divide_distrib [symmetric])
    finally show "createLasers p [] ! Suc i - createLasers p [] ! i =
              (vertical_FOV_lower p - vertical_FOV_upper p) / real (number_of_channels p - 1)"
      by (simp add: N_def L_def U_def)
  qed
qed

text \<open>Four channels between 15 and -15 degrees: no operation rounds, and the table is
  15, 5, -5, -15. Fourteen channels between 7 and -7 degrees: the last entry is within
  the tolerance of the lower bound. No channel, and one channel.\<close>

theorem createLasers_single_precision_witness:
  "2 \<le> number_of_channels bench_params \<and> createLasers_in_range bench_params \<and>
   number_of_channels bench_params \<le> 2 ^ 24 \<and>
   createLasers_exact bench_params \<and>
   createLasers bench_params [] = [15, 5, - 5, - 15] \<and>
   createLasers bench_params [] ! 0 = vertical_FOV_upper bench_params \<and>
   createLasers bench_params [] ! (number_of_channels bench_params - 1)
     = vertical_FOV_lower bench_params \<and>
   2 \<le> number_of_channels fourteen_channels \<and> createLasers_in_range fourteen_channels \<and>
   number_of_channels fourteen_channels \<le> 2 ^ 24 \<and>
   length (createLasers fourteen_channels []) = 14 \<and>
   \<bar>createLasers fourteen_channels [] ! 13 - (- 7)\<bar> \<le> 14 / 2 ^ 20 + 14 / 2 ^ 147 \<and>
   createLasers (bench_params\<lparr>number_of_channels := 0\<rparr>) [] = [] \<and>
   createLasers (bench_params\<lparr>number_of_channels := 1\<rparr>) [] = [0]"
proof -
  have n: "2 \<le> number_of_channels bench_params"
    and b: "number_of_channels bench_params \<le> 2 ^ 24" by (simp_all add: bench_params_def)
  note claim = createLasers_single_precision [of bench_params]
  from claim n bench_in_range bench_exact
  have four: "createLasers bench_params [] ! 0 = vertical_FOV_upper bench_params \<and>
        createLasers bench_params [] ! (number_of_channels bench_params - 1)
          = vertical_FOV_lower bench_params"
    by blast
  have n14: "2 \<le> number_of_channels fourteen_channels"
    and b14: "number_of_channels fourteen_channels \<le> 2 ^ 24"
    by (simp_all add: fourteen_params)
  from createLasers_single_precision [of fourteen_channels] n14 b14 fourteen_in_range
  have "length (createLasers fourteen_channels []) = number_of_channels fourteen_channels \<and>
        \<bar>createLasers fourteen_channels [] ! (number_of_channels fourteen_channels - 1)
          - vertical_FOV_lower fourteen_channels\<bar> \<le> createLasers_tolerance fourteen_channels"
    by blast
  then have fourteen: "length (createLasers fourteen_channels []) = 14 \<and>
      \<bar>createLasers fourteen_channels [] ! 13 - (- 7)\<bar> \<le> 14 / 2 ^ 20 + 14 / 2 ^ 147"
    unfolding fourteen_params fourteen_tolerance by simp
  from createLasers_single_precision [of "bench_params\<lparr>number_of_channels := 0\<rparr>"]
  have zero: "createLasers (bench_params\<lparr>number_of_channels := 0\<rparr>) [] = []" by simp
  from createLasers_single_precision [of "bench_params\<lparr>number_of_channels := 1\<rparr>"]
  have one: "createLasers (bench_params\<lparr>number_of_channels := 1\<rparr>) [] = [0]" by simp
  from n b bench_in_range bench_exact bench_table four n14 b14 fourteen_in_range fourteen zero one
  show ?thesis by blast
qed

subsection \<open>The scheduler\<close>

lemma bench_budget_neg: "scan_budget bench_params (- 1) = Inl UndefinedConversion"
  by (simp add: scan_budget_def bench_params_def RoundHalfFromZero_def float_to_uint32_def Let_def)

lemma bench_spec_neg: "spec_rawTotal bench_params (- 1) = - 400 \<and>
   spec_clampedTotal bench_params (- 1) = - 400 \<and>
   spec_pointsPerLaser bench_params (- 1) = - 100 \<and> spec_warning bench_params (- 1) = []"
  by (simp add: spec_rawTotal_def spec_clampedTotal_def spec_pointsPerLaser_def spec_warning_def spec_round_def bench_params_def)

lemma bench_budget_cap:
  "scan_budget (bench_params\<lparr>points_per_second := 1000000\<rparr>) 1
     = Inr (25000, [EvLogMessage ''Lidar: '' ''Capping number of points to scan''])"
  by (simp add: scan_budget_def bench_params_def RoundHalfFromZero_def
      float_to_uint32_def MAX_POINTS_IN_SCAN_def Let_def)

text \<open>The product of line 84 is a \<^verbatim>\<open>double\<close>: at 5 points per second and an elapsed time
  of 0.3 as a \<^verbatim>\<open>double\<close> stores it (5404319552844595 / 2 ^ 54, a little less than three
  tenths), the product 27021597764222975 / 2 ^ 54 is rounded to 1.5 and the total is 2.\<close>

lemma to_double_product:
  "to_double (27021597764222975 / 18014398509481984) = 3 / 2"
  by (rule to_double_evalI [where e = 0 and m = 6755399441055744]) simp_all

lemma double_product_budget:
  "scan_budget (bench_params\<lparr>number_of_channels := 1, points_per_second := 5\<rparr>)
     (5404319552844595 / 18014398509481984) = Inr (2, [])"
  by (simp add: scan_budget_def bench_params_def RoundHalfFromZero_def to_double_product
      float_to_uint32_def MAX_POINTS_IN_SCAN_def Let_def)

text \<open>
  Claim C3 at a negative elapsed time: 400 points per second for -1 second on four
  channels. The product is -400 exactly, and so is its rounding. The claim's scheduler
  has the total -400, neither clamps nor reports it, and has -100 points for each
  laser. The code stores the rounded total in a \<^verbatim>\<open>uint32\<close> (line 84), which has no such
  value: the conversion is undefined, and the tick delivers none of these numbers.
\<close>

theorem negative_total_is_not_scheduled:
  "scan_budget bench_params (- 1) = Inl UndefinedConversion \<and>
   RoundHalfFromZero (to_double (points_per_second bench_params * (- 1))) = - 400 \<and>
   spec_rawTotal bench_params (- 1) = - 400 \<and>
   spec_clampedTotal bench_params (- 1) = - 400 \<and>
   spec_pointsPerLaser bench_params (- 1) = - 100 \<and>
   spec_warning bench_params (- 1) = []"
proof -
  have "RoundHalfFromZero (to_double (points_per_second bench_params * (- 1))) = - 400"
    by (simp add: RoundHalfFromZero_def bench_params_def)
  with bench_budget_neg bench_spec_neg show ?thesis by simp
qed

subsection \<open>The shape of a tick\<close>

lemma getPointCloud_error:
  "scan_budget (params s) delta_time = Inl e \<Longrightarrow>
   getPointCloud h s lidar_pose vehicle_pose delta_time pc = Inl e"
  by (simp add: getPointCloud_def)

lemma getPointCloud_no_points:
  "scan_budget (params s) delta_time = Inr (0, logged) \<Longrightarrow>
   getPointCloud h s lidar_pose vehicle_pose delta_time pc
     = Inr \<lparr> sensor = s, point_cloud = [], events = logged \<rparr>"
  by (simp add: getPointCloud_def vector_clear_def)

lemma getPointCloud_scan:
  "scan_budget (params s) delta_time = Inr (n, logged) \<Longrightarrow> 0 < n \<Longrightarrow>
   getPointCloud h s lidar_pose vehicle_pose delta_time pc =
     (case laser_loop (shoot_sample h s lidar_pose vehicle_pose delta_time n) n
             [0..<number_of_channels (params s)]
             ([], logged @
                  (if draw_debug_points_m s
                   then [EvDrawDebugPoint
                           (FVector (vx (ray_start h lidar_pose vehicle_pose))
                                    (vy (ray_start h lidar_pose vehicle_pose))
                                    (vz (ray_start h lidar_pose vehicle_pose))) Blue]
                   else [])) of
        Inl e \<Rightarrow> Inl e
      | Inr (cloud, evs) \<Rightarrow>
          Inr \<lparr> sensor = s\<lparr> current_horizontal_angle_m :=
                      fmod (current_horizontal_angle_m s
                            + angle_distance_of_tick (params s) delta_time) 360 \<rparr>,
                point_cloud = cloud, events = evs \<rparr>)"
  by (simp add: getPointCloud_def vector_clear_def Let_def)

lemma emission_order_empty: "emission_order number_of_lasers 0 = []"
  by (simp add: emission_order_def)

lemma length_emission_order: "length (emission_order number_of_lasers n) = number_of_lasers * n"
  by (simp add: emission_order_def length_concat comp_def sum_list_triv)

lemma getPointCloud_Inr:
  assumes run: "getPointCloud h s lidar_pose vehicle_pose delta_time pc = Inr r"
    and budget: "scan_budget (params s) delta_time = Inr (n, logged)"
  shows "point_cloud r =
           concat (map (\<lambda>li. sample_coords
                                (shoot_sample h s lidar_pose vehicle_pose delta_time n (fst li) (snd li)))
                       (emission_order (number_of_channels (params s)) n))"
    and "events r =
           logged @
           (if 0 < n \<and> draw_debug_points_m s
            then [EvDrawDebugPoint
                    (FVector (vx (ray_start h lidar_pose vehicle_pose))
                             (vy (ray_start h lidar_pose vehicle_pose))
                             (vz (ray_start h lidar_pose vehicle_pose))) Blue]
            else []) @
           concat (map (\<lambda>li. sample_events
                                (shoot_sample h s lidar_pose vehicle_pose delta_time n (fst li) (snd li)))
                       (emission_order (number_of_channels (params s)) n))"
    and "sensor r =
           (if 0 < n
            then s\<lparr> current_horizontal_angle_m :=
                      fmod (current_horizontal_angle_m s
                            + angle_distance_of_tick (params s) delta_time) 360 \<rparr>
            else s)"
proof -
  have all: "point_cloud r =
           concat (map (\<lambda>li. sample_coords
                                (shoot_sample h s lidar_pose vehicle_pose delta_time n (fst li) (snd li)))
                       (emission_order (number_of_channels (params s)) n)) \<and>
      events r =
           logged @
           (if 0 < n \<and> draw_debug_points_m s
            then [EvDrawDebugPoint
                    (FVector (vx (ray_start h lidar_pose vehicle_pose))
                             (vy (ray_start h lidar_pose vehicle_pose))
                             (vz (ray_start h lidar_pose vehicle_pose))) Blue]
            else []) @
           concat (map (\<lambda>li. sample_events
                                (shoot_sample h s lidar_pose vehicle_pose delta_time n (fst li) (snd li)))
                       (emission_order (number_of_channels (params s)) n)) \<and>
      sensor r =
           (if 0 < n
            then s\<lparr> current_horizontal_angle_m :=
                      fmod (current_horizontal_angle_m s
                            + angle_distance_of_tick (params s) delta_time) 360 \<rparr>
            else s)"
  proof (cases "n = 0")
    case True
    with budget have "getPointCloud h s lidar_pose vehicle_pose delta_time pc
        = Inr \<lparr> sensor = s, point_cloud = [], events = logged \<rparr>"
      by (simp add: getPointCloud_no_points)
    with run have "r = \<lparr> sensor = s, point_cloud = [], events = logged \<rparr>" by simp
    with True show ?thesis by (simp add: emission_order_empty)
  next
    case False
    then have pos: "0 < n" by simp
    let ?ev0 = "logged @
                  (if draw_debug_points_m s
                   then [EvDrawDebugPoint
                           (FVector (vx (ray_start h lidar_pose vehicle_pose))
                                    (vy (ray_start h lidar_pose vehicle_pose))
                                    (vz (ray_start h lidar_pose vehicle_pose))) Blue]
                   else [])"
    let ?loop = "laser_loop (shoot_sample h s lidar_pose vehicle_pose delta_time n) n
                   [0..<number_of_channels (params s)] ([], ?ev0)"
    from run getPointCloud_scan [OF budget pos, of h lidar_pose vehicle_pose pc]
    obtain acc' where loop: "?loop = Inr acc'"
      and r: "r = \<lparr> sensor = s\<lparr> current_horizontal_angle_m :=
                      fmod (current_horizontal_angle_m s
                            + angle_distance_of_tick (params s) delta_time) 360 \<rparr>,
                    point_cloud = fst acc', events = snd acc' \<rparr>"
      by (cases ?loop) (auto split: prod.splits)
    from laser_loop_Inr [OF loop] r pos show ?thesis
      by (simp add: emission_order_def)
  qed
  from all show "point_cloud r =
           concat (map (\<lambda>li. sample_coords
                                (shoot_sample h s lidar_pose vehicle_pose delta_time n (fst li) (snd li)))
                       (emission_order (number_of_channels (params s)) n))" by simp
  from all show "events r =
           logged @
           (if 0 < n \<and> draw_debug_points_m s
            then [EvDrawDebugPoint
                    (FVector (vx (ray_start h lidar_pose vehicle_pose))
                             (vy (ray_start h lidar_pose vehicle_pose))
                             (vz (ray_start h lidar_pose vehicle_pose))) Blue]
            else []) @
           concat (map (\<lambda>li. sample_events
                                (shoot_sample h s lidar_pose vehicle_pose delta_time n (fst li) (snd li)))
                       (emission_order (number_of_channels (params s)) n))" by simp
  from all show "sensor r =
           (if 0 < n
            then s\<lparr> current_horizontal_angle_m :=
                      fmod (current_horizontal_angle_m s
                            + angle_distance_of_tick (params s) delta_time) 360 \<rparr>
            else s)" by simp
qed

lemma getPointCloud_budget:
  "getPointCloud h s lidar_pose vehicle_pose delta_time pc = Inr r \<Longrightarrow>
   \<exists>n logged. scan_budget (params s) delta_time = Inr (n, logged)"
  by (cases "scan_budget (params s) delta_time") (auto simp: getPointCloud_error)

lemma sample_loop_Inr_all:
  "sample_loop shoot laser samples acc = Inr acc' \<Longrightarrow> i \<in> set samples \<Longrightarrow>
   \<exists>res. shoot laser i = Inr res"
proof (induction samples arbitrary: acc)
  case Nil
  then show ?case by simp
next
  case (Cons j rest)
  show ?case
  proof (cases "shoot laser j")
    case (Inl e)
    with Cons.prems show ?thesis by simp
  next
    case (Inr res)
    show ?thesis
    proof (cases "i = j")
      case True
      with Inr show ?thesis by blast
    next
      case False
      with Cons.prems have mem: "i \<in> set rest" by simp
      obtain hit pt evs where res: "res = (hit, pt, evs)" by (cases res) auto
      from Cons.prems(1) Inr res
      have "sample_loop shoot laser rest
              (if hit then fst acc @ [vx pt, vy pt, vz pt] else fst acc, snd acc @ evs) = Inr acc'"
        by simp
      from Cons.IH [OF this mem] show ?thesis .
    qed
  qed
qed

lemma laser_loop_Inr_all:
  "laser_loop shoot n lasers acc = Inr acc' \<Longrightarrow> laser \<in> set lasers \<Longrightarrow> i < n \<Longrightarrow>
   \<exists>res. shoot laser i = Inr res"
proof (induction lasers arbitrary: acc)
  case Nil
  then show ?case by simp
next
  case (Cons l rest)
  show ?case
  proof (cases "sample_loop shoot l [0..<n] acc")
    case (Inl e)
    with Cons.prems show ?thesis by simp
  next
    case (Inr mid)
    show ?thesis
    proof (cases "laser = l")
      case True
      from sample_loop_Inr_all [OF Inr, of i] Cons.prems(3) True show ?thesis by simp
    next
      case False
      with Cons.prems have mem: "laser \<in> set rest" by simp
      from Cons.prems(1) Inr have "laser_loop shoot n rest mid = Inr acc'" by simp
      from Cons.IH [OF this mem Cons.prems(3)] show ?thesis .
    qed
  qed
qed

lemma set_emission_order:
  "set (emission_order number_of_lasers n) = {li. fst li < number_of_lasers \<and> snd li < n}"
  by (auto simp: emission_order_def)

lemma shoot_sample_coords_triple:
  "shoot_sample h s lidar_pose vehicle_pose delta_time n laser i = Inr res \<Longrightarrow>
   length (sample_coords (Inr res)) = 3 \<and>
   sample_coords (Inr res) = [vx (fst (snd res)), vy (fst (snd res)), vz (fst (snd res))]"
proof -
  assume a: "shoot_sample h s lidar_pose vehicle_pose delta_time n laser i = Inr res"
  obtain hit pt evs where res: "res = (hit, pt, evs)" by (cases res) auto
  from a res have "hit"
    unfolding shoot_sample_def Let_def by (auto dest: shootLaser_returns_true)
  with res show ?thesis by (simp add: sample_coords_def)
qed

lemma getPointCloud_samples_succeed:
  assumes run: "getPointCloud h s lidar_pose vehicle_pose delta_time pc = Inr r"
    and budget: "scan_budget (params s) delta_time = Inr (n, logged)"
    and li: "li \<in> set (emission_order (number_of_channels (params s)) n)"
  shows "\<exists>res. shoot_sample h s lidar_pose vehicle_pose delta_time n (fst li) (snd li) = Inr res"
proof -
  from li have l: "fst li < number_of_channels (params s)" and i: "snd li < n"
    by (simp_all add: set_emission_order)
  then have pos: "0 < n" by simp
  let ?loop = "laser_loop (shoot_sample h s lidar_pose vehicle_pose delta_time n) n
                 [0..<number_of_channels (params s)]
                 ([], logged @
                  (if draw_debug_points_m s
                   then [EvDrawDebugPoint
                           (FVector (vx (ray_start h lidar_pose vehicle_pose))
                                    (vy (ray_start h lidar_pose vehicle_pose))
                                    (vz (ray_start h lidar_pose vehicle_pose))) Blue]
                   else []))"
  from run getPointCloud_scan [OF budget pos, of h lidar_pose vehicle_pose pc]
  obtain acc' where loop: "?loop = Inr acc'"
    by (cases ?loop) auto
  from laser_loop_Inr_all [OF loop _ i, of "fst li"] l show ?thesis by simp
qed

lemma length_concat_triples:
  "(\<And>x. x \<in> set xs \<Longrightarrow> length (f x) = 3) \<Longrightarrow> length (concat (map f xs)) = 3 * length xs"
  by (induction xs) simp_all

lemma getPointCloud_length:
  assumes run: "getPointCloud h s lidar_pose vehicle_pose delta_time pc = Inr r"
    and budget: "scan_budget (params s) delta_time = Inr (n, logged)"
  shows "length (point_cloud r) = 3 * (number_of_channels (params s) * n)"
proof -
  have "length (point_cloud r) = 3 * length (emission_order (number_of_channels (params s)) n)"
    unfolding getPointCloud_Inr(1) [OF run budget]
  proof (rule length_concat_triples)
    fix li assume "li \<in> set (emission_order (number_of_channels (params s)) n)"
    from getPointCloud_samples_succeed [OF run budget this]
    obtain res where "shoot_sample h s lidar_pose vehicle_pose delta_time n (fst li) (snd li) = Inr res"
      by auto
    with shoot_sample_coords_triple [OF this]
    show "length (sample_coords
             (shoot_sample h s lidar_pose vehicle_pose delta_time n (fst li) (snd li))) = 3"
      by simp
  qed
  then show ?thesis by (simp add: length_emission_order)
qed

lemma getPointCloud_direct_total:
  assumes ned: "ned_transform_m s = None"
    and table: "number_of_channels (params s) \<le> length (laser_angles_m s)"
    and budget: "scan_budget (params s) delta_time = Inr (n, logged)"
  shows "\<exists>r. getPointCloud h s lidar_pose vehicle_pose delta_time pc = Inr r"
proof (cases "n = 0")
  case True
  with budget show ?thesis by (simp add: getPointCloud_no_points)
next
  case False
  then have pos: "0 < n" by simp
  have "\<exists>acc'. laser_loop (shoot_sample h s lidar_pose vehicle_pose delta_time n) n
                 [0..<number_of_channels (params s)]
                 ([], logged @
                  (if draw_debug_points_m s
                   then [EvDrawDebugPoint
                           (FVector (vx (ray_start h lidar_pose vehicle_pose))
                                    (vy (ray_start h lidar_pose vehicle_pose))
                                    (vz (ray_start h lidar_pose vehicle_pose))) Blue]
                   else [])) = Inr acc' \<and>
           length (fst acc') = length (fst ([] :: real list, logged @
                  (if draw_debug_points_m s
                   then [EvDrawDebugPoint
                           (FVector (vx (ray_start h lidar_pose vehicle_pose))
                                    (vy (ray_start h lidar_pose vehicle_pose))
                                    (vz (ray_start h lidar_pose vehicle_pose))) Blue]
                   else []))) + 3 * (length [0..<number_of_channels (params s)] * n)"
  proof (rule laser_loop_total)
    fix laser i
    assume "laser \<in> set [0..<number_of_channels (params s)]"
    with table have "laser < length (laser_angles_m s)" by simp
    from shootLaser_direct_total [OF ned this]
    show "\<exists>pt evs. shoot_sample h s lidar_pose vehicle_pose delta_time n laser i = Inr (True, pt, evs)"
      by (simp add: shoot_sample_def Let_def)
  qed
  then obtain acc' where "laser_loop (shoot_sample h s lidar_pose vehicle_pose delta_time n) n
                 [0..<number_of_channels (params s)]
                 ([], logged @
                  (if draw_debug_points_m s
                   then [EvDrawDebugPoint
                           (FVector (vx (ray_start h lidar_pose vehicle_pose))
                                    (vy (ray_start h lidar_pose vehicle_pose))
                                    (vz (ray_start h lidar_pose vehicle_pose))) Blue]
                   else [])) = Inr acc'" by blast
  with getPointCloud_scan [OF budget pos, of h lidar_pose vehicle_pose pc]
  show ?thesis by (cases acc') simp
qed

lemma length_createLasers: "length (createLasers p []) = number_of_channels p"
  by (simp add: createLasers_def Let_def)

lemma new_sensor_table:
  "number_of_channels (params (new_UnrealLidarSensor p actor ned))
     \<le> length (laser_angles_m (new_UnrealLidarSensor p actor ned))"
  by (simp add: new_UnrealLidarSensor_def length_createLasers)

subsection \<open>Concrete runs on the bench\<close>

lemmas bench_defs =
  new_UnrealLidarSensor_def one_channel_def two_channels_def bench_params_def createLasers_def
  bench_engine_def hit_world_def empty_world_def bench_ned_def identity_ned_def
  Vector3r_Zero_def unrotated_def
  bench_RotateVector_def bench_UnrotateVector_def rotator_rows_def FVector_add_def
  FVector_scale_def FVector_sub_def FVector_dot_def unrotate_to_pose_def
  bench_toQuaternion_def qmul_def qconj_def bench_rotateVector_def Vector3r_add_def
  Vector3r_scale_def

lemmas run_defs =
  shoot_sample_def shootLaser_def ray_start_def angle_distance_of_tick_def Let_def fmod_def

lemma one_budget: "scan_budget one_channel (1 / 10) = Inr (1, [])"
  by (simp add: scan_budget_def one_channel_def bench_params_def RoundHalfFromZero_def
      float_to_uint32_def MAX_POINTS_IN_SCAN_def Let_def)

lemma one_budget_zero: "scan_budget one_channel 0 = Inr (0, [])"
  by (simp add: scan_budget_def one_channel_def bench_params_def RoundHalfFromZero_def
      float_to_uint32_def MAX_POINTS_IN_SCAN_def Let_def)



lemma params_new [simp]: "params (new_UnrealLidarSensor p actor ned) = p"
  by (simp add: new_UnrealLidarSensor_def)


lemma bench_tick_0:
  "getPointCloud (bench_engine empty_world)
     (new_UnrealLidarSensor one_channel (PlainActor 1) None)
     (unrotated (Vector3r 0 0 0)) (unrotated (Vector3r 1 2 3)) (1 / 10) [7, 8, 9]
   = Inr \<lparr> sensor = (new_UnrealLidarSensor one_channel (PlainActor 1) None)
                       \<lparr>current_horizontal_angle_m := 36\<rparr>,
           point_cloud = [10, 0, 0],
           events = [EvGetObstacle (FVector 1 2 3) (FVector 11 2 3) [] True] \<rparr>"
proof -
  have b: "scan_budget (params (new_UnrealLidarSensor one_channel (PlainActor 1) None)) (1 / 10)
             = Inr (1, [])"
    by (simp add: one_budget)
  show ?thesis
    unfolding getPointCloud_scan [OF b zero_less_one]
    by (simp add: run_defs bench_defs)
qed

lemma scan_budget_logged:
  "scan_budget p delta_time = Inr (n, logged) \<Longrightarrow> filter is_raycast logged = []"
  by (auto simp: scan_budget_def Let_def is_raycast_def split: sum.splits if_splits)


subsection \<open>The rotation angle\<close>





subsection \<open>The cloud\<close>

lemma emission_order_Suc:
  "emission_order (Suc number_of_lasers) n
     = emission_order number_of_lasers n @ map (\<lambda>i. (number_of_lasers, i)) [0..<n]"
  by (simp add: emission_order_def)

lemma emission_order_nth:
  "laser < number_of_lasers \<Longrightarrow> i < n \<Longrightarrow>
   emission_order number_of_lasers n ! (laser * n + i) = (laser, i)"
proof (induction number_of_lasers)
  case 0
  then show ?case by simp
next
  case (Suc m)
  show ?case
  proof (cases "laser < m")
    case True
    with Suc.prems have "laser * n + i < m * n"
    proof -
      have "laser * n + i < laser * n + n" using Suc.prems(2) by simp
      also have "\<dots> = Suc laser * n" by simp
      also have "\<dots> \<le> m * n" using True by (intro mult_le_mono1) simp
      finally show ?thesis .
    qed
    with Suc.IH [OF True Suc.prems(2)] show ?thesis
      by (simp add: emission_order_Suc nth_append length_emission_order)
  next
    case False
    with Suc.prems have "laser = m" by simp
    with Suc.prems(2) show ?thesis
      by (simp add: emission_order_Suc nth_append length_emission_order)
  qed
qed

text \<open>
  Claim C8. The cloud a tick returns does not depend on what the caller's buffer held
  (line 76 clears it). Its length is a multiple of three: it is the concatenation, over
  the (channel, sample) pairs in the order of the loops, of the three coordinates of
  the point of that pair. In that order the pair (laser, i) stands at position
  \<open>laser * n + i\<close>: all samples of channel 0 by increasing index, then channel 1, and so
  on.
\<close>

theorem point_cloud_fresh_ordered:
  "getPointCloud h s lidar_pose vehicle_pose delta_time pc
     = getPointCloud h s lidar_pose vehicle_pose delta_time [] \<and>
   (\<forall>r n logged.
      getPointCloud h s lidar_pose vehicle_pose delta_time pc = Inr r \<longrightarrow>
      scan_budget (params s) delta_time = Inr (n, logged) \<longrightarrow>
        3 dvd length (point_cloud r) \<and>
        length (point_cloud r) = 3 * length (emission_order (number_of_channels (params s)) n) \<and>
        point_cloud r =
          concat (map (\<lambda>li. sample_coords
                               (shoot_sample h s lidar_pose vehicle_pose delta_time n (fst li) (snd li)))
                      (emission_order (number_of_channels (params s)) n)) \<and>
        (\<forall>li \<in> set (emission_order (number_of_channels (params s)) n).
           \<exists>pt evs.
             shoot_sample h s lidar_pose vehicle_pose delta_time n (fst li) (snd li)
               = Inr (True, pt, evs) \<and>
             sample_coords (shoot_sample h s lidar_pose vehicle_pose delta_time n (fst li) (snd li))
               = [vx pt, vy pt, vz pt]) \<and>
        (\<forall>laser i. laser < number_of_channels (params s) \<longrightarrow> i < n \<longrightarrow>
           emission_order (number_of_channels (params s)) n ! (laser * n + i) = (laser, i)))"
proof (intro conjI allI impI)
  show "getPointCloud h s lidar_pose vehicle_pose delta_time pc
     = getPointCloud h s lidar_pose vehicle_pose delta_time []"
    by (simp add: getPointCloud_def vector_clear_def)
next
  fix r n logged
  assume run: "getPointCloud h s lidar_pose vehicle_pose delta_time pc = Inr r"
    and budget: "scan_budget (params s) delta_time = Inr (n, logged)"
  show len: "length (point_cloud r) = 3 * length (emission_order (number_of_channels (params s)) n)"
    using getPointCloud_length [OF run budget] by (simp add: length_emission_order)
  then show "3 dvd length (point_cloud r)" by simp
  show "point_cloud r =
          concat (map (\<lambda>li. sample_coords
                               (shoot_sample h s lidar_pose vehicle_pose delta_time n (fst li) (snd li)))
                      (emission_order (number_of_channels (params s)) n))"
    by (rule getPointCloud_Inr(1) [OF run budget])
  show "\<forall>li \<in> set (emission_order (number_of_channels (params s)) n).
           \<exists>pt evs.
             shoot_sample h s lidar_pose vehicle_pose delta_time n (fst li) (snd li)
               = Inr (True, pt, evs) \<and>
             sample_coords (shoot_sample h s lidar_pose vehicle_pose delta_time n (fst li) (snd li))
               = [vx pt, vy pt, vz pt]"
  proof
    fix li assume li: "li \<in> set (emission_order (number_of_channels (params s)) n)"
    from getPointCloud_samples_succeed [OF run budget li]
    obtain res where res: "shoot_sample h s lidar_pose vehicle_pose delta_time n (fst li) (snd li) = Inr res"
      by auto
    obtain hit pt evs where t: "res = (hit, pt, evs)" by (cases res) auto
    from shoot_sample_coords_triple [OF res] t have "hit"
      by (auto simp: sample_coords_def split: if_splits)
    with res t show "\<exists>pt evs.
             shoot_sample h s lidar_pose vehicle_pose delta_time n (fst li) (snd li)
               = Inr (True, pt, evs) \<and>
             sample_coords (shoot_sample h s lidar_pose vehicle_pose delta_time n (fst li) (snd li))
               = [vx pt, vy pt, vz pt]"
      by (simp add: sample_coords_def)
  qed
next
  fix r :: TickResult and n :: nat and logged :: "event list" and laser i :: nat
  assume "laser < number_of_channels (params s)" "i < n"
  then show "emission_order (number_of_channels (params s)) n ! (laser * n + i) = (laser, i)"
    by (rule emission_order_nth)
qed


lemma two_budget: "scan_budget two_channels 1 = Inr (2, [])"
  by (simp add: scan_budget_def two_channels_def bench_params_def RoundHalfFromZero_def
      float_to_uint32_def MAX_POINTS_IN_SCAN_def Let_def)

lemma two_table: "laser_angles_m (new_UnrealLidarSensor two_channels (PlainActor 1) None) = [0, - 90]"
  by (simp add: new_UnrealLidarSensor_def createLasers_def two_channels_def bench_params_def upt_rec)

lemma bench_tick_two:
  "getPointCloud (bench_engine empty_world)
     (new_UnrealLidarSensor two_channels (PlainActor 1) None)
     (unrotated (Vector3r 0 0 0)) (unrotated (Vector3r 1 2 3)) 1 [7, 8, 9]
   = Inr \<lparr> sensor = new_UnrealLidarSensor two_channels (PlainActor 1) None,
           point_cloud = [10, 0, 0, - 10, 0, 0, 0, 0, - 10, 0, 0, - 10],
           events = [EvGetObstacle (FVector 1 2 3) (FVector 11 2 3) [] True,
                     EvGetObstacle (FVector 1 2 3) (FVector (- 9) 2 3) [] True,
                     EvGetObstacle (FVector 1 2 3) (FVector 1 2 (- 7)) [] True,
                     EvGetObstacle (FVector 1 2 3) (FVector 1 2 (- 7)) [] True] \<rparr>"
proof -
  have b: "scan_budget (params (new_UnrealLidarSensor two_channels (PlainActor 1) None)) 1
             = Inr (2, [])"
    by (simp add: two_budget)
  have n: "(0::nat) < 2" by simp
  show ?thesis
    unfolding getPointCloud_scan [OF b n]
    by (simp add: run_defs bench_defs upt_rec)
qed


text \<open>Two channels (0 and -90 degrees), two samples each (at 0 and 180 degrees), into a
  buffer that held three numbers.\<close>

theorem point_cloud_fresh_ordered_witness:
  "getPointCloud (bench_engine empty_world)
     (new_UnrealLidarSensor two_channels (PlainActor 1) None)
     (unrotated (Vector3r 0 0 0)) (unrotated (Vector3r 1 2 3)) 1 [7, 8, 9]
   = getPointCloud (bench_engine empty_world)
     (new_UnrealLidarSensor two_channels (PlainActor 1) None)
     (unrotated (Vector3r 0 0 0)) (unrotated (Vector3r 1 2 3)) 1 [] \<and>
   getPointCloud (bench_engine empty_world)
     (new_UnrealLidarSensor two_channels (PlainActor 1) None)
     (unrotated (Vector3r 0 0 0)) (unrotated (Vector3r 1 2 3)) 1 [7, 8, 9]
   = Inr \<lparr> sensor = new_UnrealLidarSensor two_channels (PlainActor 1) None,
           point_cloud = [10, 0, 0, - 10, 0, 0, 0, 0, - 10, 0, 0, - 10],
           events = [EvGetObstacle (FVector 1 2 3) (FVector 11 2 3) [] True,
                     EvGetObstacle (FVector 1 2 3) (FVector (- 9) 2 3) [] True,
                     EvGetObstacle (FVector 1 2 3) (FVector 1 2 (- 7)) [] True,
                     EvGetObstacle (FVector 1 2 3) (FVector 1 2 (- 7)) [] True] \<rparr> \<and>
   scan_budget (params (new_UnrealLidarSensor two_channels (PlainActor 1) None)) 1
   = Inr (2, []) \<and>
   3 dvd length [10, 0, 0, - 10, 0, 0, 0, 0, - 10, 0, 0, - 10 :: real] \<and>
   length [10, 0, 0, - 10, 0, 0, 0, 0, - 10, 0, 0, - 10 :: real]
   = 3 * length (emission_order
                   (number_of_channels (params (new_UnrealLidarSensor two_channels (PlainActor 1) None)))
                   2) \<and>
   emission_order (number_of_channels two_channels) 2 = [(0, 0), (0, 1), (1, 0), (1, 1)]"
proof -
  let ?h = "bench_engine empty_world"
  let ?s = "new_UnrealLidarSensor two_channels (PlainActor 1) None"
  let ?p0 = "unrotated (Vector3r 0 0 0)"
  let ?p1 = "unrotated (Vector3r 1 2 3)"
  let ?r = "\<lparr> sensor = ?s,
              point_cloud = [10, 0, 0, - 10, 0, 0, 0, 0, - 10, 0, 0, - 10],
              events = [EvGetObstacle (FVector 1 2 3) (FVector 11 2 3) [] True,
                        EvGetObstacle (FVector 1 2 3) (FVector (- 9) 2 3) [] True,
                        EvGetObstacle (FVector 1 2 3) (FVector 1 2 (- 7)) [] True,
                        EvGetObstacle (FVector 1 2 3) (FVector 1 2 (- 7)) [] True] \<rparr>"
  have e: "emission_order (number_of_channels two_channels) 2 = [(0, 0), (0, 1), (1, 0), (1, 1)]"
    by (simp add: emission_order_def two_channels_def bench_params_def upt_rec)
  have b: "scan_budget (params ?s) 1 = Inr (2, [])"
    by (simp add: two_budget)
  have run: "getPointCloud ?h ?s ?p0 ?p1 1 [7, 8, 9] = Inr ?r"
    by (rule bench_tick_two)
  note claim = point_cloud_fresh_ordered [of ?h ?s ?p0 ?p1 1 "[7, 8, 9]"]
  from claim have fresh: "getPointCloud ?h ?s ?p0 ?p1 1 [7, 8, 9] = getPointCloud ?h ?s ?p0 ?p1 1 []"
    by (rule conjunct1)
  from claim have "getPointCloud ?h ?s ?p0 ?p1 1 [7, 8, 9] = Inr ?r \<longrightarrow>
      scan_budget (params ?s) 1 = Inr (2, []) \<longrightarrow>
      3 dvd length (point_cloud ?r) \<and>
      length (point_cloud ?r) = 3 * length (emission_order (number_of_channels (params ?s)) 2)"
    by blast
  with run b have "3 dvd length (point_cloud ?r) \<and>
      length (point_cloud ?r) = 3 * length (emission_order (number_of_channels (params ?s)) 2)"
    by blast
  then have three: "3 dvd length [10, 0, 0, - 10, 0, 0, 0, 0, - 10, 0, 0, - 10 :: real] \<and>
      length [10, 0, 0, - 10, 0, 0, 0, 0, - 10, 0, 0, - 10 :: real]
        = 3 * length (emission_order (number_of_channels (params ?s)) 2)"
    by (simp del: length_Cons list.size)
  from fresh run b three e show ?thesis by blast
qed

subsection \<open>The debug flag\<close>

lemma shoot_sample_debug_irrelevant:
  "strip_events (shoot_sample h (s\<lparr>draw_debug_points_m := b\<rparr>) lidar_pose vehicle_pose delta_time n laser i)
   = strip_events (shoot_sample h s lidar_pose vehicle_pose delta_time n laser i)"
  by (simp add: shoot_sample_def Let_def shootLaser_debug_irrelevant)

text \<open>
  Claim C9. Two runs of a tick that differ only in the sensor's debug flag
  (\<^verbatim>\<open>draw_debug_points_\<close>) end alike: both fail with the same error, or both return the
  same cloud and leave the same rotation angle.
\<close>

theorem debug_flag_noninterference:
  "numeric_outcome
     (getPointCloud h (s\<lparr>draw_debug_points_m := b\<rparr>) lidar_pose vehicle_pose delta_time pc)
   = numeric_outcome (getPointCloud h s lidar_pose vehicle_pose delta_time pc)"
proof (cases "scan_budget (params s) delta_time")
  case (Inl e)
  then show ?thesis by (simp add: getPointCloud_error)
next
  case (Inr res)
  obtain n logged where res: "res = (n, logged)" by (cases res) auto
  from Inr res have b1: "scan_budget (params s) delta_time = Inr (n, logged)" by simp
  then have b2: "scan_budget (params (s\<lparr>draw_debug_points_m := b\<rparr>)) delta_time = Inr (n, logged)"
    by simp
  show ?thesis
  proof (cases "n = 0")
    case True
    with b1 b2 show ?thesis
      by (simp add: getPointCloud_no_points numeric_outcome_def)
  next
    case False
    then have pos: "0 < n" by simp
    let ?start = "FVector (vx (ray_start h lidar_pose vehicle_pose))
                          (vy (ray_start h lidar_pose vehicle_pose))
                          (vz (ray_start h lidar_pose vehicle_pose))"
    let ?l1 = "laser_loop (shoot_sample h (s\<lparr>draw_debug_points_m := b\<rparr>) lidar_pose vehicle_pose delta_time n)
                 n [0..<number_of_channels (params s)]
                 ([], logged @ (if b then [EvDrawDebugPoint ?start Blue] else []))"
    let ?l2 = "laser_loop (shoot_sample h s lidar_pose vehicle_pose delta_time n)
                 n [0..<number_of_channels (params s)]
                 ([], logged @ (if draw_debug_points_m s then [EvDrawDebugPoint ?start Blue] else []))"
    have same: "map_sum id fst ?l1 = map_sum id fst ?l2"
      by (rule laser_loop_cong) (rule shoot_sample_debug_irrelevant)
    have g1: "numeric_outcome
                (getPointCloud h (s\<lparr>draw_debug_points_m := b\<rparr>) lidar_pose vehicle_pose delta_time pc)
              = map_sum id (\<lambda>acc. (fst acc, fmod (current_horizontal_angle_m s
                            + angle_distance_of_tick (params s) delta_time) 360)) ?l1"
      unfolding getPointCloud_scan [OF b2 pos]
      by (cases ?l1) (auto simp: numeric_outcome_def)
    have g2: "numeric_outcome (getPointCloud h s lidar_pose vehicle_pose delta_time pc)
              = map_sum id (\<lambda>acc. (fst acc, fmod (current_horizontal_angle_m s
                            + angle_distance_of_tick (params s) delta_time) 360)) ?l2"
      unfolding getPointCloud_scan [OF b1 pos]
      by (cases ?l2) (auto simp: numeric_outcome_def)
    from same show ?thesis
      unfolding g1 g2 by (cases ?l1; cases ?l2) auto
  qed
qed

subsection \<open>What a tick leaves alone\<close>

lemma getPointCloud_frame:
  "getPointCloud h s lidar_pose vehicle_pose delta_time pc = Inr r \<Longrightarrow>
   sensor r = s\<lparr>current_horizontal_angle_m := current_horizontal_angle_m (sensor r)\<rparr>"
proof -
  assume run: "getPointCloud h s lidar_pose vehicle_pose delta_time pc = Inr r"
  from getPointCloud_budget [OF run] obtain n logged
    where budget: "scan_budget (params s) delta_time = Inr (n, logged)" by auto
  from getPointCloud_Inr(3) [OF run budget] show ?thesis by simp
qed

lemma run_ticks_frame:
  "run_ticks h s ticks = Inr s' \<Longrightarrow>
   s' = s\<lparr>current_horizontal_angle_m := current_horizontal_angle_m s'\<rparr>"
proof (induction ticks arbitrary: s)
  case Nil
  then show ?case by simp
next
  case (Cons t ts)
  show ?case
  proof (cases "getPointCloud h s (fst t) (fst (snd t)) (fst (snd (snd t))) (snd (snd (snd t)))")
    case (Inl e)
    with Cons.prems show ?thesis by simp
  next
    case (Inr r)
    with Cons.prems have rest: "run_ticks h (sensor r) ts = Inr s'" by simp
    from Cons.IH [OF rest] getPointCloud_frame [OF Inr] show ?thesis
      by (metis UnrealLidarSensor.update_convs(5) UnrealLidarSensor.surjective)
  qed
qed


text \<open>
  Claim C10. A call of \<^verbatim>\<open>getPointCloud\<close> leaves every member of the sensor but the
  rotation angle as it was, and so does any sequence of calls; after any number of
  ticks a sensor still has the table of angles, the list of ignored actors, the two
  flags, the parameters, the actor and the reference transform that the constructor
  gave it.
\<close>

theorem getPointCloud_frame_condition:
  "(\<forall>r. getPointCloud h s lidar_pose vehicle_pose delta_time pc = Inr r \<longrightarrow>
        sensor r = s\<lparr>current_horizontal_angle_m := current_horizontal_angle_m (sensor r)\<rparr>) \<and>
   (\<forall>s'. run_ticks h s ticks = Inr s' \<longrightarrow>
        s' = s\<lparr>current_horizontal_angle_m := current_horizontal_angle_m s'\<rparr>) \<and>
   (\<forall>s'. run_ticks h (new_UnrealLidarSensor p actor ned) ticks = Inr s' \<longrightarrow>
        laser_angles_m s' = createLasers p [] \<and>
        ignore_collision_actors_m s' =
          (if ignore_pawn_collision p
           then (case actor of AUrdfLink _ owner \<Rightarrow> [owner] | PlainActor _ \<Rightarrow> [])
           else []) \<and>
        ignore_pawn_collision_m s' = ignore_pawn_collision p \<and>
        draw_debug_points_m s' = draw_debug_points p \<and>
        params s' = p \<and> actor_m s' = actor \<and> ned_transform_m s' = ned)"
proof (intro conjI allI impI)
  fix r assume "getPointCloud h s lidar_pose vehicle_pose delta_time pc = Inr r"
  then show "sensor r = s\<lparr>current_horizontal_angle_m := current_horizontal_angle_m (sensor r)\<rparr>"
    by (rule getPointCloud_frame)
next
  fix s' assume "run_ticks h s ticks = Inr s'"
  then show "s' = s\<lparr>current_horizontal_angle_m := current_horizontal_angle_m s'\<rparr>"
    by (rule run_ticks_frame)
next
  fix s' assume run: "run_ticks h (new_UnrealLidarSensor p actor ned) ticks = Inr s'"
  define a where "a = current_horizontal_angle_m s'"
  from run_ticks_frame [OF run]
  have eq: "s' = (new_UnrealLidarSensor p actor ned)\<lparr>current_horizontal_angle_m := a\<rparr>"
    by (simp add: a_def)
  show "laser_angles_m s' = createLasers p []"
    by (simp add: eq new_UnrealLidarSensor_def)
  show "ignore_collision_actors_m s' =
          (if ignore_pawn_collision p
           then (case actor of AUrdfLink _ owner \<Rightarrow> [owner] | PlainActor _ \<Rightarrow> [])
           else [])"
    by (simp add: eq new_UnrealLidarSensor_def)
  show "ignore_pawn_collision_m s' = ignore_pawn_collision p"
    by (simp add: eq new_UnrealLidarSensor_def)
  show "draw_debug_points_m s' = draw_debug_points p"
    by (simp add: eq new_UnrealLidarSensor_def)
  show "params s' = p" by (simp add: eq new_UnrealLidarSensor_def)
  show "actor_m s' = actor" by (simp add: eq new_UnrealLidarSensor_def)
  show "ned_transform_m s' = ned" by (simp add: eq new_UnrealLidarSensor_def)
qed

lemma bench_tick_link:
  "getPointCloud (bench_engine empty_world)
     (new_UnrealLidarSensor one_channel (AUrdfLink 7 2) None)
     (unrotated (Vector3r 0 0 0)) (unrotated (Vector3r 1 2 3)) (1 / 10) [7, 8, 9]
   = Inr \<lparr> sensor = (new_UnrealLidarSensor one_channel (AUrdfLink 7 2) None)
                       \<lparr>current_horizontal_angle_m := 36\<rparr>,
           point_cloud = [10, 0, 0],
           events = [EvGetObstacle (FVector 1 2 3) (FVector 11 2 3) [2] True] \<rparr>"
proof -
  have b: "scan_budget (params (new_UnrealLidarSensor one_channel (AUrdfLink 7 2) None)) (1 / 10)
             = Inr (1, [])"
    by (simp add: one_budget)
  show ?thesis
    unfolding getPointCloud_scan [OF b zero_less_one]
    by (simp add: run_defs bench_defs)
qed

lemma bench_two_ticks:
  "run_ticks (bench_engine empty_world)
     (new_UnrealLidarSensor one_channel (AUrdfLink 7 2) None)
     [(unrotated (Vector3r 0 0 0), unrotated (Vector3r 1 2 3), 1 / 10, [7, 8, 9]),
      (unrotated (Vector3r 0 0 0), unrotated (Vector3r 1 2 3), 0, [])]
   = Inr ((new_UnrealLidarSensor one_channel (AUrdfLink 7 2) None)
            \<lparr>current_horizontal_angle_m := 36\<rparr>)"
proof -
  have b: "scan_budget (params ((new_UnrealLidarSensor one_channel (AUrdfLink 7 2) None)
                          \<lparr>current_horizontal_angle_m := 36\<rparr>)) 0 = Inr (0, [])"
    by (simp add: one_budget_zero)
  show ?thesis
    by (simp add: bench_tick_link getPointCloud_no_points [OF b])
qed

text \<open>A sensor on a link owned by actor 2, after a tick that shoots one ray and a tick
  with no elapsed time.\<close>

theorem getPointCloud_frame_condition_witness:
  "run_ticks (bench_engine empty_world)
     (new_UnrealLidarSensor one_channel (AUrdfLink 7 2) None)
     [(unrotated (Vector3r 0 0 0), unrotated (Vector3r 1 2 3), 1 / 10, [7, 8, 9]),
      (unrotated (Vector3r 0 0 0), unrotated (Vector3r 1 2 3), 0, [])]
   = Inr ((new_UnrealLidarSensor one_channel (AUrdfLink 7 2) None)
            \<lparr>current_horizontal_angle_m := 36\<rparr>) \<and>
   laser_angles_m ((new_UnrealLidarSensor one_channel (AUrdfLink 7 2) None)
                     \<lparr>current_horizontal_angle_m := 36\<rparr>) = [0] \<and>
   ignore_collision_actors_m ((new_UnrealLidarSensor one_channel (AUrdfLink 7 2) None)
                                \<lparr>current_horizontal_angle_m := 36\<rparr>) = [2] \<and>
   ignore_pawn_collision_m ((new_UnrealLidarSensor one_channel (AUrdfLink 7 2) None)
                              \<lparr>current_horizontal_angle_m := 36\<rparr>) = True \<and>
   draw_debug_points_m ((new_UnrealLidarSensor one_channel (AUrdfLink 7 2) None)
                          \<lparr>current_horizontal_angle_m := 36\<rparr>) = False"
proof -
  from getPointCloud_frame_condition
         [of "bench_engine empty_world" "new_UnrealLidarSensor one_channel (AUrdfLink 7 2) None"
             "unrotated (Vector3r 0 0 0)" "unrotated (Vector3r 1 2 3)" "1 / 10" "[7, 8, 9]"
             "[(unrotated (Vector3r 0 0 0), unrotated (Vector3r 1 2 3), 1 / 10, [7, 8, 9]),
               (unrotated (Vector3r 0 0 0), unrotated (Vector3r 1 2 3), 0, [])]"
             one_channel "AUrdfLink 7 2" None]
       bench_two_ticks
  have "laser_angles_m ((new_UnrealLidarSensor one_channel (AUrdfLink 7 2) None)
                     \<lparr>current_horizontal_angle_m := 36\<rparr>) = createLasers one_channel [] \<and>
        ignore_collision_actors_m ((new_UnrealLidarSensor one_channel (AUrdfLink 7 2) None)
                                \<lparr>current_horizontal_angle_m := 36\<rparr>) =
          (if ignore_pawn_collision one_channel then [2] else []) \<and>
        ignore_pawn_collision_m ((new_UnrealLidarSensor one_channel (AUrdfLink 7 2) None)
                              \<lparr>current_horizontal_angle_m := 36\<rparr>) = ignore_pawn_collision one_channel \<and>
        draw_debug_points_m ((new_UnrealLidarSensor one_channel (AUrdfLink 7 2) None)
                          \<lparr>current_horizontal_angle_m := 36\<rparr>) = draw_debug_points one_channel"
    by simp
  with bench_two_ticks show ?thesis
    by (simp add: one_channel_def bench_params_def createLasers_def)
qed

subsection \<open>The two pipelines\<close>

lemma shootLaser_ned_hit:
  assumes "ned_transform_m s = Some ned" and "laser < length (laser_angles_m s)"
    and "GetObstacle h (actor_m s) (fromLocalNed ned start) (fromLocalNed ned Vector3r_Zero)
           (ignore_collision_actors_m s) (ignore_pawn_collision_m s) = Some impact"
  shows "shootLaser h s lidar_pose vehicle_pose start laser angle p =
           Inr (True, toLocalNed ned impact,
                EvGetObstacle (fromLocalNed ned start) (fromLocalNed ned Vector3r_Zero)
                  (ignore_collision_actors_m s) (ignore_pawn_collision_m s)
                # (if IsInGameThread h \<and> draw_debug_points_m s
                   then [EvDrawDebugPoint impact Red] else []))"
  using assms by (simp add: shootLaser_def Let_def)

lemma shootLaser_ned_miss:
  assumes "ned_transform_m s = Some ned" and "laser < length (laser_angles_m s)"
    and "GetObstacle h (actor_m s) (fromLocalNed ned start) (fromLocalNed ned Vector3r_Zero)
           (ignore_collision_actors_m s) (ignore_pawn_collision_m s) = None"
  shows "shootLaser h s lidar_pose vehicle_pose start laser angle p = Inl UninitialisedRead"
  using assms by (simp add: shootLaser_def Let_def unrotate_to_pose_None)

lemma shootLaser_direct:
  assumes "ned_transform_m s = None" and "laser < length (laser_angles_m s)"
  shows "shootLaser h s lidar_pose vehicle_pose start laser angle p =
     (let startVec = FVector (vx start) (vy start) (vz start);
          endVec = direct_end h s lidar_pose start laser angle (lidar_range p);
          query = EvGetObstacle startVec endVec (ignore_collision_actors_m s) (ignore_pawn_collision_m s)
      in case GetObstacle h (actor_m s) startVec endVec
                (ignore_collision_actors_m s) (ignore_pawn_collision_m s) of
           Some impact \<Rightarrow>
             Inr (True, to_sensor_frame h s lidar_pose (FVector_sub impact startVec),
                  query # (if IsInGameThread h \<and> draw_debug_points_m s
                           then [EvDrawDebugPoint impact Red] else []))
         | None \<Rightarrow>
             Inr (True, to_sensor_frame h s lidar_pose (FVector_sub endVec startVec),
                  query # (if draw_debug_points_m s
                           then [EvDrawDebugPoint endVec Green] else [])))"
  using assms
  by (simp add: shootLaser_def Let_def direct_end_def to_sensor_frame_def unrotate_to_pose_Some
        split: option.splits)

lemma laser_loop_first_error:
  "0 < number_of_lasers \<Longrightarrow> 0 < n \<Longrightarrow> shoot 0 0 = Inl e \<Longrightarrow>
   laser_loop shoot n [0..<number_of_lasers] acc = Inl e"
  by (simp add: upt_conv_Cons)

lemma bench_budget_400: "scan_budget bench_params 1 = Inr (100, [])"
  by (simp add: scan_budget_def bench_params_def RoundHalfFromZero_def
      float_to_uint32_def MAX_POINTS_IN_SCAN_def Let_def)

text \<open>
  Claim C1 at a concrete tick: a sensor with a reference transform (centimetres, the
  vertical axis flipped), one channel at 0 degrees, range 10, unrotated mount and
  vehicle, ray origin (1, 2, 3), horizontal angle 0. The specification's endpoint is
  the image (1100, 200, -300) of (11, 2, 3). The raycast is called with the image of
  \<^verbatim>\<open>Vector3r::Zero()\<close>: line 205 reads the \<^verbatim>\<open>end\<close> of line 151, which the declaration
  of line 196 shadows and nothing assigns in this branch.
\<close>

theorem ned_raycast_endpoint_is_zero:
  "getPointCloud (bench_engine (hit_world (FVector 500 200 (- 300))))
     (new_UnrealLidarSensor one_channel (PlainActor 1) (Some bench_ned))
     (unrotated (Vector3r 0 0 0)) (unrotated (Vector3r 1 2 3)) (1 / 10) []
   = Inr \<lparr> sensor = (new_UnrealLidarSensor one_channel (PlainActor 1) (Some bench_ned))
                       \<lparr>current_horizontal_angle_m := 36\<rparr>,
           point_cloud = [5, 2, 3],
           events = [EvGetObstacle (FVector 100 200 (- 300)) (FVector 0 0 0) [] True] \<rparr> \<and>
   fromLocalNed bench_ned (Vector3r 1 2 3) = FVector 100 200 (- 300) \<and>
   fromLocalNed bench_ned Vector3r_Zero = FVector 0 0 0 \<and>
   spec_ned_endpoint (bench_engine (hit_world (FVector 500 200 (- 300)))) bench_ned
     (unrotated (Vector3r 0 0 0)) (unrotated (Vector3r 1 2 3)) (Vector3r 1 2 3)
     0 0 (lidar_range one_channel)
   = FVector 1100 200 (- 300)"
proof -
  have b: "scan_budget (params (new_UnrealLidarSensor one_channel (PlainActor 1) (Some bench_ned)))
             (1 / 10) = Inr (1, [])"
    by (simp add: one_budget)
  have run: "getPointCloud (bench_engine (hit_world (FVector 500 200 (- 300))))
     (new_UnrealLidarSensor one_channel (PlainActor 1) (Some bench_ned))
     (unrotated (Vector3r 0 0 0)) (unrotated (Vector3r 1 2 3)) (1 / 10) []
   = Inr \<lparr> sensor = (new_UnrealLidarSensor one_channel (PlainActor 1) (Some bench_ned))
                       \<lparr>current_horizontal_angle_m := 36\<rparr>,
           point_cloud = [5, 2, 3],
           events = [EvGetObstacle (FVector 100 200 (- 300)) (FVector 0 0 0) [] True] \<rparr>"
    unfolding getPointCloud_scan [OF b zero_less_one]
    by (simp add: run_defs bench_defs)
  have spec: "spec_ned_endpoint (bench_engine (hit_world (FVector 500 200 (- 300)))) bench_ned
     (unrotated (Vector3r 0 0 0)) (unrotated (Vector3r 1 2 3)) (Vector3r 1 2 3)
     0 0 (lidar_range one_channel)
   = FVector 1100 200 (- 300)"
    by (simp add: spec_ned_endpoint_def Let_def bench_defs)
  from run spec show ?thesis by (simp add: bench_ned_def Vector3r_Zero_def)
qed

text \<open>
  Claim C5 at a concrete tick: four channels, 400 points per second, one second, a
  world in which every ray misses. With a reference transform the miss branch (lines
  269 to 271) reads \<^verbatim>\<open>actorRotator\<close> and \<^verbatim>\<open>poseRotator\<close>, which only the branch
  without a reference transform assigns: no cloud of 400 points comes back. Without a
  reference transform the same tick returns 400 points (1200 coordinates).
\<close>

theorem ned_miss_reads_unassigned_rotators:
  "getPointCloud (bench_engine empty_world)
     (new_UnrealLidarSensor bench_params (PlainActor 1) (Some bench_ned))
     (unrotated (Vector3r 0 0 0)) (unrotated (Vector3r 1 2 3)) 1 []
   = Inl UninitialisedRead \<and>
   scan_budget bench_params 1 = Inr (100, []) \<and>
   (\<exists>r. getPointCloud (bench_engine empty_world)
          (new_UnrealLidarSensor bench_params (PlainActor 1) None)
          (unrotated (Vector3r 0 0 0)) (unrotated (Vector3r 1 2 3)) 1 [] = Inr r \<and>
        length (point_cloud r) = 3 * 400)"
proof -
  let ?h = "bench_engine empty_world"
  let ?sn = "new_UnrealLidarSensor bench_params (PlainActor 1) (Some bench_ned)"
  let ?sd = "new_UnrealLidarSensor bench_params (PlainActor 1) None"
  let ?p0 = "unrotated (Vector3r 0 0 0)"
  let ?p1 = "unrotated (Vector3r 1 2 3)"
  have bn: "scan_budget (params ?sn) 1 = Inr (100, [])" by (simp add: bench_budget_400)
  have bd: "scan_budget (params ?sd) 1 = Inr (100, [])" by (simp add: bench_budget_400)
  have n: "(0::nat) < 100" by simp
  have first: "shoot_sample ?h ?sn ?p0 ?p1 1 100 0 0 = Inl UninitialisedRead"
    unfolding shoot_sample_def Let_def
    by (rule shootLaser_ned_miss [where ned = bench_ned])
       (simp_all add: new_UnrealLidarSensor_def length_createLasers bench_params_def
          bench_engine_def empty_world_def)
  have chans: "0 < number_of_channels (params ?sn)" by (simp add: bench_params_def)
  have loop: "\<And>acc. laser_loop (shoot_sample ?h ?sn ?p0 ?p1 1 100) 100
                      [0..<number_of_channels (params ?sn)] acc = Inl UninitialisedRead"
    using chans n first by (rule laser_loop_first_error)
  have ned: "getPointCloud ?h ?sn ?p0 ?p1 1 [] = Inl UninitialisedRead"
    unfolding getPointCloud_scan [OF bn n] loop by simp
  have "ned_transform_m ?sd = None" by (simp add: new_UnrealLidarSensor_def)
  from getPointCloud_direct_total [OF this new_sensor_table bd]
  obtain r where r: "getPointCloud ?h ?sd ?p0 ?p1 1 [] = Inr r" by blast
  from getPointCloud_length [OF r bd] have "length (point_cloud r) = 3 * 400"
    by (simp add: bench_params_def)
  with r ned bench_budget_400 show ?thesis by blast
qed

text \<open>
  Claim C7 at a concrete ray: the same poses, the same channel and sample, the identity
  as reference transform, a synthetic hit at (6, 2, 3). Without a reference transform
  the ray goes from (1, 2, 3) to (11, 2, 3) and the point is (5, 0, 0); with it the ray
  goes from (1, 2, 3) to (0, 0, 0) and the point is (6, 2, 3).
\<close>

theorem pipelines_shoot_different_rays:
  "shootLaser (bench_engine (hit_world (FVector 6 2 3)))
     (new_UnrealLidarSensor one_channel (PlainActor 1) None)
     (unrotated (Vector3r 0 0 0)) (unrotated (Vector3r 1 2 3)) (Vector3r 1 2 3) 0 0 one_channel
   = Inr (True, Vector3r 5 0 0, [EvGetObstacle (FVector 1 2 3) (FVector 11 2 3) [] True]) \<and>
   shootLaser (bench_engine (hit_world (FVector 6 2 3)))
     (new_UnrealLidarSensor one_channel (PlainActor 1) (Some identity_ned))
     (unrotated (Vector3r 0 0 0)) (unrotated (Vector3r 1 2 3)) (Vector3r 1 2 3) 0 0 one_channel
   = Inr (True, Vector3r 6 2 3, [EvGetObstacle (FVector 1 2 3) (FVector 0 0 0) [] True])"
  by (simp add: shootLaser_def Let_def bench_defs)

subsection \<open>Ticks without points\<close>

lemma zero_delta_time_empty:
  assumes "1 \<le> number_of_channels (params s)"
  shows "getPointCloud h s lidar_pose vehicle_pose 0 pc
           = Inr \<lparr> sensor = s, point_cloud = [], events = [] \<rparr>"
proof -
  have "scan_budget (params s) 0 = Inr (0, [])"
    using assms
    by (simp add: scan_budget_def RoundHalfFromZero_def float_to_uint32_def
          MAX_POINTS_IN_SCAN_def Let_def)
  then show ?thesis by (rule getPointCloud_no_points)
qed

lemma no_points_no_raycast:
  assumes "getPointCloud h s lidar_pose vehicle_pose delta_time pc = Inr r"
    and "scan_budget (params s) delta_time = Inr (0, logged)"
  shows "point_cloud r = [] \<and> filter is_raycast (events r) = [] \<and> sensor r = s"
  using assms getPointCloud_no_points [OF assms(2), of h lidar_pose vehicle_pose pc]
  by (auto simp: scan_budget_logged)

text \<open>
  Claim C6 at a negative elapsed time: 400 points per second for -1 second round to
  -400, and line 84 converts that to \<^verbatim>\<open>uint32\<close>: the call does not return an empty
  cloud, its behaviour is undefined.
\<close>

theorem negative_delta_time_is_undefined:
  "getPointCloud (bench_engine empty_world)
     (new_UnrealLidarSensor bench_params (PlainActor 1) None)
     (unrotated (Vector3r 0 0 0)) (unrotated (Vector3r 1 2 3)) (- 1) []
   = Inl UndefinedConversion \<and>
   RoundHalfFromZero (points_per_second bench_params * (- 1)) = - 400"
proof -
  have "scan_budget (params (new_UnrealLidarSensor bench_params (PlainActor 1) None)) (- 1)
          = Inl UndefinedConversion"
    by (simp add: bench_budget_neg)
  then show ?thesis
    by (simp add: getPointCloud_error RoundHalfFromZero_def bench_params_def)
qed


end
